theory Spec2Isabelle
  imports Complex_Main "HOL-Library.Monad_Syntax"
begin

section \<open>JavaScript numbers\<close>

text \<open>
  The cart computes with JavaScript numbers (\<open>existingItem.quantity += quantity\<close>,
  \<open>total + item.price * item.quantity\<close>, \<open>item.quantity <= 0\<close>). A number is an IEEE 754
  binary64 value: a finite double, written here as the rational it denotes, or one of
  \<open>NaN\<close>, \<open>Infinity\<close>, \<open>-Infinity\<close>. The two zeros are one value \<open>Fin 0\<close>
  (they are \<open>===\<close>, and nothing in the cart divides by a number or prints a sign).
\<close>

datatype jsnum = Fin rat | NaN | PosInf | NegInf

text \<open>The number of binary digits of a positive integer.\<close>

function bit_length :: "int \<Rightarrow> int" where
  "bit_length n = (if n \<le> 0 then 0 else 1 + bit_length (n div 2))"
  by pat_completeness auto
termination
  by (relation "measure nat") auto

declare bit_length.simps [simp del]

definition pow2 :: "int \<Rightarrow> rat" where
  "pow2 e = (if 0 \<le> e then of_int (2 ^ nat e) else 1 / of_int (2 ^ nat (- e)))"

text \<open>\<open>ilog2 x\<close> is the binary exponent of \<open>x \<noteq> 0\<close>: \<open>2\<^sup>k \<le> \<bar>x\<bar> < 2\<^sup>k\<^sup>+\<^sup>1\<close>.\<close>

definition ilog2 :: "rat \<Rightarrow> int" where
  "ilog2 x = (let (p, q) = quotient_of \<bar>x\<bar>;
                  k = bit_length p - bit_length q
              in if pow2 k \<le> \<bar>x\<bar> then k else k - 1)"

definition round_half_even :: "rat \<Rightarrow> int" where
  "round_half_even x = (let n = \<lfloor>x\<rfloor>; d = x - of_int n
     in if d < 1 / 2 then n else if 1 / 2 < d then n + 1 else if even n then n else n + 1)"

text \<open>
  \<open>fl x\<close> is the double nearest to the exact value \<open>x\<close>, ties to the even significand:
  53 significant bits for a normal number, multiples of \<open>2\<^sup>-\<^sup>1\<^sup>0\<^sup>7\<^sup>4\<close> below
  \<open>2\<^sup>-\<^sup>1\<^sup>0\<^sup>2\<^sup>2\<close>, an infinity when the rounded value reaches \<open>2\<^sup>1\<^sup>0\<^sup>2\<^sup>4\<close>. It is the
  rounding of every arithmetic operation, and the value of a decimal literal such as
  \<open>9.99\<close> is \<open>fl (999 / 100)\<close>.
\<close>

definition fl :: "rat \<Rightarrow> jsnum" where
  "fl x = (if x = 0 then Fin 0 else
     let e = max (ilog2 x) (- 1022) - 52;
         r = of_int (round_half_even (x / pow2 e)) * pow2 e
     in if pow2 1024 \<le> \<bar>r\<bar> then (if 0 < x then PosInf else NegInf) else Fin r)"

text \<open>Number addition, \<open>x + y\<close>.\<close>

fun js_add :: "jsnum \<Rightarrow> jsnum \<Rightarrow> jsnum" where
  "js_add NaN y = NaN"
| "js_add x NaN = NaN"
| "js_add PosInf NegInf = NaN"
| "js_add NegInf PosInf = NaN"
| "js_add PosInf y = PosInf"
| "js_add x PosInf = PosInf"
| "js_add NegInf y = NegInf"
| "js_add x NegInf = NegInf"
| "js_add (Fin a) (Fin b) = fl (a + b)"

text \<open>Number multiplication, \<open>x * y\<close>.\<close>

fun js_mul :: "jsnum \<Rightarrow> jsnum \<Rightarrow> jsnum" where
  "js_mul NaN y = NaN"
| "js_mul x NaN = NaN"
| "js_mul (Fin a) (Fin b) = fl (a * b)"
| "js_mul (Fin a) y =
     (if a = 0 then NaN else if (0 < a) = (y = PosInf) then PosInf else NegInf)"
| "js_mul x (Fin b) =
     (if b = 0 then NaN else if (0 < b) = (x = PosInf) then PosInf else NegInf)"
| "js_mul x y = (if x = y then PosInf else NegInf)"

text \<open>The comparisons \<open>x <= y\<close> and \<open>x < y\<close>: false as soon as one side is \<open>NaN\<close>.\<close>

fun js_le :: "jsnum \<Rightarrow> jsnum \<Rightarrow> bool" where
  "js_le NaN y = False"
| "js_le x NaN = False"
| "js_le NegInf y = True"
| "js_le x PosInf = True"
| "js_le PosInf y = False"
| "js_le x NegInf = False"
| "js_le (Fin a) (Fin b) = (a \<le> b)"

fun js_lt :: "jsnum \<Rightarrow> jsnum \<Rightarrow> bool" where
  "js_lt NaN y = False"
| "js_lt x NaN = False"
| "js_lt PosInf y = False"
| "js_lt x NegInf = False"
| "js_lt NegInf y = True"
| "js_lt x PosInf = True"
| "js_lt (Fin a) (Fin b) = (a < b)"

text \<open>
  A property of an item is \<open>Some\<close> value, or \<open>None\<close> where the object has no such property:
  reading it gives \<open>undefined\<close>. The \<open>price\<close> and the \<open>quantity\<close> of an item hold a number,
  or \<open>null\<close>: the value that \<open>JSON.parse\<close> gives back where \<open>JSON.stringify\<close> had met
  \<open>NaN\<close> or an infinity. Arithmetic and comparison convert their operands with
  \<open>ToNumber\<close>, which reads \<open>undefined\<close> as \<open>NaN\<close> and \<open>null\<close> as \<open>0\<close>.
\<close>

datatype jsval = Null | Number jsnum

fun ToNumber :: "jsval option \<Rightarrow> jsnum" where
  "ToNumber None = NaN"
| "ToNumber (Some Null) = Fin 0"
| "ToNumber (Some (Number n)) = n"


section \<open>The storage area and JSON texts\<close>

text \<open>
  \<open>localStorage\<close> maps a key to a text. A JSON text is kept as the document it denotes:
  \<open>JSON.stringify\<close> writes a document and \<open>JSON.parse\<close> reads the same document back from
  that text, so the characters in between are not modelled. A number literal is
  identified with the double it reads as (the literal that \<open>JSON.stringify\<close> writes for a
  finite double reads back as that double). The area has room for what is written:
  \<open>setItem\<close> does not fail.
\<close>

datatype json =
    JNull
  | JNumber rat
  | JString string
  | JArray "json list"
  | JObject "(string \<times> json) list"

datatype stored_text =
    Empty       \<comment> \<open>the empty string, which is falsy\<close>
  | JSON json   \<comment> \<open>the text of a JSON document\<close>
  | NotJSON     \<comment> \<open>any other text: \<open>JSON.parse\<close> throws a \<open>SyntaxError\<close>\<close>

type_synonym Storage = "string \<rightharpoonup> stored_text"

definition getItem :: "Storage \<Rightarrow> string \<Rightarrow> stored_text option" where
  "getItem ls k = ls k"

definition setItem :: "Storage \<Rightarrow> string \<Rightarrow> stored_text \<Rightarrow> Storage" where
  "setItem ls k v = ls(k \<mapsto> v)"

fun truthy :: "stored_text \<Rightarrow> bool" where
  "truthy Empty = False"
| "truthy t = True"

text \<open>
  \<open>SyntaxError\<close> is the exception of \<open>JSON.parse\<close>. \<open>NotItemList\<close> marks a document that
  parses but is not an array of objects whose \<open>productId\<close>, \<open>productName\<close>, \<open>image\<close> and
  \<open>addedAt\<close>, where present, are strings and whose \<open>price\<close> and \<open>quantity\<close>, where
  present, are numbers or \<open>null\<close>: \<open>this.items\<close> would then be a value that the item
  records below cannot express.
\<close>

datatype load_error = SyntaxError | NotItemList

text \<open>
  \<open>JSON.stringify\<close> writes \<open>null\<close> for \<open>null\<close>, for \<open>NaN\<close> and for both infinities, and it
  leaves out a property whose value is \<open>undefined\<close>.
\<close>

fun stringify_number :: "jsval \<Rightarrow> json" where
  "stringify_number Null = JNull"
| "stringify_number (Number (Fin r)) = JNumber r"
| "stringify_number (Number n) = JNull"

fun present :: "(string \<times> json option) list \<Rightarrow> (string \<times> json) list" where
  "present [] = []"
| "present ((k, None) # entries) = present entries"
| "present ((k, Some j) # entries) = (k, j) # present entries"

text \<open>
  \<open>JSON.parse\<close> makes an object from the members of the text, in their order: a name
  that comes again keeps its place and takes the later value. A property is then read
  by its name, wherever it stands.
\<close>

definition define_property ::
  "(string \<times> json) list \<Rightarrow> string \<times> json \<Rightarrow> (string \<times> json) list" where
  "define_property obj kv =
     (if fst kv \<in> fst ` set obj
      then map (\<lambda>p. if fst p = fst kv then kv else p) obj
      else obj @ [kv])"

definition object_of :: "(string \<times> json) list \<Rightarrow> (string \<times> json) list" where
  "object_of members = foldl define_property [] members"

fun parse_number :: "json \<Rightarrow> jsval option" where
  "parse_number JNull = Some Null"
| "parse_number (JNumber r) = Some (Number (Fin r))"
| "parse_number j = None"

text \<open>
  The two readings give \<open>None\<close> for a value of another type than the item records hold,
  \<open>Some None\<close> for a property that the object does not have.
\<close>

definition string_property :: "(string \<times> json) list \<Rightarrow> string \<Rightarrow> string option option" where
  "string_property obj name =
     (case map_of obj name of
        None \<Rightarrow> Some None
      | Some (JString s) \<Rightarrow> Some (Some s)
      | Some j \<Rightarrow> None)"

definition number_property :: "(string \<times> json) list \<Rightarrow> string \<Rightarrow> jsval option option" where
  "number_property obj name =
     (case map_of obj name of
        None \<Rightarrow> Some None
      | Some j \<Rightarrow> map_option Some (parse_number j))"


section \<open>The wishlist: class \<open>DokanWishlist\<close>\<close>

text \<open>
  \<open>others\<close> holds the properties of an entry under other names than the five of the data
  model, as \<open>JSON.parse\<close> found them: no method reads them, and \<open>JSON.stringify\<close> writes
  them back. The order in which a loaded object had its properties is not kept: the five
  are written first, in the order of the object literal in \<open>addToWishlist\<close>.
\<close>

record WishlistEntry =
  productId :: "string option"
  productName :: "string option"
  price :: "jsval option"
  image' :: "string option"
  addedAt :: "string option"
  others :: "(string \<times> json) list"

record DokanWishlist =
  key :: string
  items :: "WishlistEntry list"

definition WishlistEntry_names :: "string list" where
  "WishlistEntry_names = [''productId'', ''productName'', ''price'', ''image'', ''addedAt'']"

definition stringify_WishlistEntry :: "WishlistEntry \<Rightarrow> json" where
  "stringify_WishlistEntry item = JObject
     (present
        [(''productId'', map_option JString (productId item)),
         (''productName'', map_option JString (productName item)),
         (''price'', map_option stringify_number (price item)),
         (''image'', map_option JString (image' item)),
         (''addedAt'', map_option JString (addedAt item))]
      @ others item)"

definition stringify_wishlist :: "WishlistEntry list \<Rightarrow> stored_text" where
  "stringify_wishlist xs = JSON (JArray (map stringify_WishlistEntry xs))"

fun parse_WishlistEntry :: "json \<Rightarrow> WishlistEntry option" where
  "parse_WishlistEntry (JObject members) = do {
     pid \<leftarrow> string_property (object_of members) ''productId'';
     pname \<leftarrow> string_property (object_of members) ''productName'';
     pr \<leftarrow> number_property (object_of members) ''price'';
     img \<leftarrow> string_property (object_of members) ''image'';
     stamp \<leftarrow> string_property (object_of members) ''addedAt'';
     Some \<lparr>productId = pid, productName = pname, price = pr, image' = img, addedAt = stamp,
            others = filter (\<lambda>p. fst p \<notin> set WishlistEntry_names) (object_of members)\<rparr>
   }"
| "parse_WishlistEntry j = None"

fun parse_wishlist :: "stored_text \<Rightarrow> load_error + WishlistEntry list" where
  "parse_wishlist (JSON (JArray js)) =
     (case those (map parse_WishlistEntry js) of
        None \<Rightarrow> Inl NotItemList
      | Some xs \<Rightarrow> Inr xs)"
| "parse_wishlist (JSON j) = Inl NotItemList"
| "parse_wishlist t = Inl SyntaxError"

definition loadWishlist :: "DokanWishlist \<Rightarrow> Storage \<Rightarrow> load_error + DokanWishlist" where
  "loadWishlist w ls =
     (case getItem ls (key w) of
        None \<Rightarrow> Inr (w\<lparr>items := []\<rparr>)
      | Some wishlist \<Rightarrow>
          if truthy wishlist
          then (case parse_wishlist wishlist of
                  Inl e \<Rightarrow> Inl e
                | Inr xs \<Rightarrow> Inr (w\<lparr>items := xs\<rparr>))
          else Inr (w\<lparr>items := []\<rparr>))"

definition DokanWishlist_constructor :: "Storage \<Rightarrow> load_error + DokanWishlist" where
  "DokanWishlist_constructor ls = loadWishlist \<lparr>key = ''dokan_wishlist'',
      items = []\<rparr> ls"

definition saveWishlist :: "DokanWishlist \<Rightarrow> Storage \<Rightarrow> Storage" where
  "saveWishlist w ls = setItem ls (key w) (stringify_wishlist (items w))"

text \<open>
  \<open>now\<close> is the reading of the clock, \<open>new Date().toISOString()\<close>. The result is the
  returned boolean, the wishlist and the storage area after the call. \<open>productId\<close>,
  \<open>productName\<close> and \<open>price\<close> may be \<open>undefined\<close>: the page's own function
  \<open>addToWishlist(productId)\<close> passes the first argument only. \<open>img\<close> is the value of the
  parameter \<open>image\<close>, a string: \<open>''\<close> where the call leaves the argument out.
\<close>

definition addToWishlist ::
  "string \<Rightarrow> string option \<Rightarrow> string option \<Rightarrow> jsval option \<Rightarrow> string
     \<Rightarrow> DokanWishlist \<Rightarrow> Storage \<Rightarrow> bool \<times> DokanWishlist \<times> Storage" where
  "addToWishlist now pid pname pr img w ls =
     (case List.find (\<lambda>item. productId item = pid) (items w) of
        None \<Rightarrow>
          (let w' = w\<lparr>items := items w @
                     [\<lparr>productId = pid, productName = pname, price = pr, image' = Some img,
                       addedAt = Some now, others = []\<rparr>]\<rparr>
           in (True, w', saveWishlist w' ls))
      | Some item \<Rightarrow> (False, w, ls))"

definition removeFromWishlist ::
  "string option \<Rightarrow> DokanWishlist \<Rightarrow> Storage \<Rightarrow> DokanWishlist \<times> Storage" where
  "removeFromWishlist pid w ls =
     (let w' = w\<lparr>items := filter (\<lambda>item. productId item \<noteq> pid) (items w)\<rparr>
      in (w', saveWishlist w' ls))"

definition getTotalItems_wishlist :: "DokanWishlist \<Rightarrow> nat" where
  "getTotalItems_wishlist w = length (items w)"

definition isInWishlist :: "string option \<Rightarrow> DokanWishlist \<Rightarrow> bool" where
  "isInWishlist pid w = list_ex (\<lambda>item. productId item = pid) (items w)"


section \<open>The cart: class \<open>DokanCart\<close>\<close>

text \<open>
  As for the wishlist, \<open>others\<close> holds the properties under other names than the six of
  the data model, and the six are written first, in the order of the object literal in
  \<open>addToCart\<close>.
\<close>

record LineItem =
  productId :: "string option"
  productName :: "string option"
  price :: "jsval option"
  quantity :: "jsval option"
  image' :: "string option"
  addedAt :: "string option"
  others :: "(string \<times> json) list"

record DokanCart =
  key :: string
  items :: "LineItem list"

definition LineItem_names :: "string list" where
  "LineItem_names =
     [''productId'', ''productName'', ''price'', ''quantity'', ''image'', ''addedAt'']"

definition stringify_LineItem :: "LineItem \<Rightarrow> json" where
  "stringify_LineItem item = JObject
     (present
        [(''productId'', map_option JString (productId item)),
         (''productName'', map_option JString (productName item)),
         (''price'', map_option stringify_number (price item)),
         (''quantity'', map_option stringify_number (quantity item)),
         (''image'', map_option JString (image' item)),
         (''addedAt'', map_option JString (addedAt item))]
      @ others item)"

definition stringify_cart :: "LineItem list \<Rightarrow> stored_text" where
  "stringify_cart xs = JSON (JArray (map stringify_LineItem xs))"

fun parse_LineItem :: "json \<Rightarrow> LineItem option" where
  "parse_LineItem (JObject members) = do {
     pid \<leftarrow> string_property (object_of members) ''productId'';
     pname \<leftarrow> string_property (object_of members) ''productName'';
     pr \<leftarrow> number_property (object_of members) ''price'';
     qty \<leftarrow> number_property (object_of members) ''quantity'';
     img \<leftarrow> string_property (object_of members) ''image'';
     stamp \<leftarrow> string_property (object_of members) ''addedAt'';
     Some \<lparr>productId = pid, productName = pname, price = pr, quantity = qty, image' = img,
            addedAt = stamp,
            others = filter (\<lambda>p. fst p \<notin> set LineItem_names) (object_of members)\<rparr>
   }"
| "parse_LineItem j = None"

fun parse_cart :: "stored_text \<Rightarrow> load_error + LineItem list" where
  "parse_cart (JSON (JArray js)) =
     (case those (map parse_LineItem js) of
        None \<Rightarrow> Inl NotItemList
      | Some xs \<Rightarrow> Inr xs)"
| "parse_cart (JSON j) = Inl NotItemList"
| "parse_cart t = Inl SyntaxError"

definition loadCart :: "DokanCart \<Rightarrow> Storage \<Rightarrow> load_error + DokanCart" where
  "loadCart c ls =
     (case getItem ls (key c) of
        None \<Rightarrow> Inr (c\<lparr>items := []\<rparr>)
      | Some cart \<Rightarrow>
          if truthy cart
          then (case parse_cart cart of
                  Inl e \<Rightarrow> Inl e
                | Inr xs \<Rightarrow> Inr (c\<lparr>items := xs\<rparr>))
          else Inr (c\<lparr>items := []\<rparr>))"

definition DokanCart_constructor :: "Storage \<Rightarrow> load_error + DokanCart" where
  "DokanCart_constructor ls = loadCart \<lparr>key = ''dokan_cart'', items = []\<rparr> ls"

definition saveCart :: "DokanCart \<Rightarrow> Storage \<Rightarrow> Storage" where
  "saveCart c ls = setItem ls (key c) (stringify_cart (items c))"

text \<open>
  \<open>existingItem\<close> and \<open>item\<close> are references to the object that \<open>find\<close> returned, the first
  element of \<open>this.items\<close> that satisfies the predicate; an assignment to one of its fields
  changes that element in place. Every element is an object of its own (\<open>push\<close> of an
  object literal, or \<open>JSON.parse\<close>), so no other element changes.
\<close>

fun assign_found :: "('a \<Rightarrow> bool) \<Rightarrow> ('a \<Rightarrow> 'a) \<Rightarrow> 'a list \<Rightarrow> 'a list" where
  "assign_found P f [] = []"
| "assign_found P f (x # xs) = (if P x then f x # xs else x # assign_found P f xs)"

text \<open>
  The methods take the cart and the storage area and return both as they are after the
  call. \<open>now\<close> is the reading of the clock, \<open>new Date().toISOString()\<close>. \<open>productId\<close>,
  \<open>productName\<close> and \<open>price\<close> are strings and a number (or \<open>null\<close>), or \<open>undefined\<close>, which
  \<open>handleAddToCart\<close> reads from a button without the attribute. \<open>qty\<close> and \<open>img\<close> are the
  values of the parameters \<open>quantity\<close> and \<open>image\<close>, a number (or \<open>null\<close>) and a string:
  they are \<open>1\<close> and \<open>''\<close> where the call leaves the argument out, and never
  \<open>undefined\<close>.
\<close>

definition addToCart ::
  "string \<Rightarrow> string option \<Rightarrow> string option \<Rightarrow> jsval option \<Rightarrow> jsval \<Rightarrow> string
     \<Rightarrow> DokanCart \<Rightarrow> Storage \<Rightarrow> DokanCart \<times> Storage" where
  "addToCart now pid pname pr qty img c ls =
     (let c' =
        (case List.find (\<lambda>item. productId item = pid) (items c) of
           Some existingItem \<Rightarrow>
             c\<lparr>items := assign_found (\<lambda>item. productId item = pid)
                   (\<lambda>item. item\<lparr>quantity :=
                      Some (Number (js_add (ToNumber (quantity item)) (ToNumber (Some qty))))\<rparr>)
                   (items c)\<rparr>
         | None \<Rightarrow>
             c\<lparr>items := items c @
                   [\<lparr>productId = pid, productName = pname, price = pr, quantity = Some qty,
                     image' = Some img, addedAt = Some now, others = []\<rparr>]\<rparr>)
      in (c', saveCart c' ls))"

definition removeFromCart ::
  "string option \<Rightarrow> DokanCart \<Rightarrow> Storage \<Rightarrow> DokanCart \<times> Storage" where
  "removeFromCart pid c ls =
     (let c' = c\<lparr>items := filter (\<lambda>item. productId item \<noteq> pid) (items c)\<rparr>
      in (c', saveCart c' ls))"

definition updateQuantity ::
  "string option \<Rightarrow> jsval option \<Rightarrow> DokanCart \<Rightarrow> Storage \<Rightarrow> DokanCart \<times> Storage" where
  "updateQuantity pid qty c ls =
     (case List.find (\<lambda>item. productId item = pid) (items c) of
        Some item \<Rightarrow>
          (let c' = c\<lparr>items := assign_found (\<lambda>item. productId item = pid)
                          (\<lambda>item. item\<lparr>quantity := qty\<rparr>) (items c)\<rparr>
           in if js_le (ToNumber qty) (Fin 0)
              then removeFromCart pid c' ls
              else (c', saveCart c' ls))
      | None \<Rightarrow> (c, ls))"

definition getTotalItems :: "DokanCart \<Rightarrow> jsnum" where
  "getTotalItems c =
     foldl (\<lambda>total item. js_add total (ToNumber (quantity item))) (Fin 0) (items c)"

definition getSubtotal :: "DokanCart \<Rightarrow> jsnum" where
  "getSubtotal c =
     foldl (\<lambda>total item.
              js_add total (js_mul (ToNumber (price item)) (ToNumber (quantity item))))
       (Fin 0) (items c)"

definition clearCart :: "DokanCart \<Rightarrow> Storage \<Rightarrow> DokanCart \<times> Storage" where
  "clearCart c ls = (let c' = c\<lparr>items := []\<rparr> in (c', saveCart c' ls))"


section \<open>Notions of the specification\<close>


text \<open>
  A value that a JSON text holds as it is: no property, \<open>null\<close> or a finite number. What
  comes back for any value: \<open>null\<close> for \<open>NaN\<close> and for the infinities.
\<close>

fun json_value :: "jsval option \<Rightarrow> bool" where
  "json_value None = True"
| "json_value (Some Null) = True"
| "json_value (Some (Number (Fin r))) = True"
| "json_value (Some (Number n)) = False"

fun reloaded :: "jsval option \<Rightarrow> jsval option" where
  "reloaded None = None"
| "reloaded (Some Null) = Some Null"
| "reloaded (Some (Number (Fin r))) = Some (Number (Fin r))"
| "reloaded (Some (Number n)) = Some Null"

text \<open>
  An object has every property once: the names in \<open>others\<close> differ from each other and
  from the names of the data model.
\<close>

definition proper_others :: "string list \<Rightarrow> (string \<times> json) list \<Rightarrow> bool" where
  "proper_others names ps =
     (distinct (map fst ps) \<and> list_all (\<lambda>p. fst p \<notin> set names) ps)"

text \<open>
  An item as it comes back from the storage area: its numbers as \<open>reloaded\<close> gives them,
  everything else as it was.
\<close>

definition reloaded_LineItem :: "LineItem \<Rightarrow> LineItem" where
  "reloaded_LineItem item =
     item\<lparr>price := reloaded (price item), quantity := reloaded (quantity item)\<rparr>"

definition reloaded_WishlistEntry :: "WishlistEntry \<Rightarrow> WishlistEntry" where
  "reloaded_WishlistEntry item =
     item\<lparr>WishlistEntry.price := reloaded (WishlistEntry.price item)\<rparr>"


section \<open>Lists: the first element found\<close>

lemma assign_found_first:
  "i < length xs \<Longrightarrow> P (xs ! i) \<Longrightarrow> (\<forall>j<i. \<not> P (xs ! j)) \<Longrightarrow>
     assign_found P f xs = xs[i := f (xs ! i)]"
proof (induction xs arbitrary: i)
  case Nil
  then show ?case by simp
next
  case (Cons x xs)
  show ?case
  proof (cases i)
    case 0
    with Cons.prems show ?thesis by simp
  next
    case (Suc k)
    from Cons.prems Suc have "\<not> P x" by auto
    moreover from Cons.prems Suc have "assign_found P f xs = xs[k := f (xs ! k)]"
      by (intro Cons.IH) auto
    ultimately show ?thesis using Suc by simp
  qed
qed

lemma find_append_absent:
  "\<forall>x\<in>set xs. \<not> P x \<Longrightarrow> List.find P (xs @ ys) = List.find P ys"
  by (induction xs) auto

lemma assign_found_append_absent:
  "\<forall>x\<in>set xs. \<not> P x \<Longrightarrow> assign_found P f (xs @ ys) = xs @ assign_found P f ys"
  by (induction xs) auto

lemma filter_assign_found:
  "(\<And>x. P x \<Longrightarrow> P (f x)) \<Longrightarrow>
     filter (\<lambda>x. \<not> P x) (assign_found P f xs) = filter (\<lambda>x. \<not> P x) xs"
  by (induction xs) auto

lemma find_first_index:
  "i < length xs \<Longrightarrow> P (xs ! i) \<Longrightarrow> (\<forall>j<i. \<not> P (xs ! j)) \<Longrightarrow>
     List.find P xs = Some (xs ! i)"
  by (auto simp: find_Some_iff)

lemma find_present:
  assumes "x \<in> set xs" and "P x"
  shows "\<exists>i<length xs. P (xs ! i) \<and> (\<forall>j<i. \<not> P (xs ! j)) \<and> List.find P xs = Some (xs ! i)"
proof -
  from assms have "List.find P xs \<noteq> None"
    by (auto simp: find_None_iff)
  then obtain y where "List.find P xs = Some y"
    by auto
  then show ?thesis
    by (auto simp: find_Some_iff)
qed

lemma fl_small: "fl 1 = Fin 1" "fl 2 = Fin 2" "fl 3 = Fin 3" "fl (- 2) = Fin (- 2)"
  by code_simp+

lemma fl_zero: "fl 0 = Fin 0"
  by (simp add: fl_def)


section \<open>Adding to the cart\<close>

text \<open>
  Claim C1. \<open>addToCart\<close> on a \<open>productId\<close> that no item has appends a new item with the
  given fields; on a \<open>productId\<close> that an item has, it adds the given quantity to the
  quantity of the first such item; so two calls for one absent \<open>productId\<close>, with
  quantities \<open>q1\<close> and \<open>q2\<close>, leave exactly one item for it, of quantity \<open>q1 + q2\<close>, after
  the items that were there. Each call writes the items to the storage area.
\<close>

theorem addToCart_merges_quantity:
  "(List.find (\<lambda>item. productId item = pid) (items c) = None \<longrightarrow>
      items (fst (addToCart now pid pname pr qty img c ls)) =
        items c @ [\<lparr>productId = pid, productName = pname, price = pr, quantity = Some qty,
                    image' = Some img, addedAt = Some now, others = []\<rparr>])
   \<and> (\<forall>i. i < length (items c) \<and> productId (items c ! i) = pid \<and>
            (\<forall>j<i. productId (items c ! j) \<noteq> pid) \<longrightarrow>
      items (fst (addToCart now pid pname pr qty img c ls)) =
        (items c)[i := (items c ! i)\<lparr>quantity :=
           Some (Number (js_add (ToNumber (quantity (items c ! i))) (ToNumber (Some qty))))\<rparr>])
   \<and> (List.find (\<lambda>item. productId item = pid) (items c) = None \<longrightarrow>
        (let (c1, ls1) = addToCart now1 pid pname1 pr1 q1 img1 c ls;
             (c2, ls2) = addToCart now2 pid pname2 pr2 q2 img2 c1 ls1
         in items c2 =
              items c @ [\<lparr>productId = pid, productName = pname1, price = pr1,
                          quantity = Some (Number (js_add (ToNumber (Some q1)) (ToNumber (Some q2)))),
                          image' = Some img1, addedAt = Some now1, others = []\<rparr>]
            \<and> length (filter (\<lambda>item. productId item = pid) (items c2)) = 1))
   \<and> snd (addToCart now pid pname pr qty img c ls) =
        ls(key c \<mapsto> stringify_cart (items (fst (addToCart now pid pname pr qty img c ls))))"
proof (intro conjI impI allI)
  assume "List.find (\<lambda>item. productId item = pid) (items c) = None"
  then show "items (fst (addToCart now pid pname pr qty img c ls)) =
        items c @ [\<lparr>productId = pid, productName = pname, price = pr, quantity = Some qty,
                    image' = Some img, addedAt = Some now, others = []\<rparr>]"
    by (simp add: addToCart_def Let_def)
next
  fix i
  assume h: "i < length (items c) \<and> productId (items c ! i) = pid \<and>
            (\<forall>j<i. productId (items c ! j) \<noteq> pid)"
  then have "List.find (\<lambda>item. productId item = pid) (items c) = Some (items c ! i)"
    by (intro find_first_index) auto
  moreover from h have "assign_found (\<lambda>item. productId item = pid)
       (\<lambda>item. item\<lparr>quantity := Some (Number (js_add (ToNumber (quantity item)) (ToNumber (Some qty))))\<rparr>)
       (items c) = (items c)[i := (items c ! i)\<lparr>quantity :=
           Some (Number (js_add (ToNumber (quantity (items c ! i))) (ToNumber (Some qty))))\<rparr>]"
    by (intro assign_found_first) auto
  ultimately show "items (fst (addToCart now pid pname pr qty img c ls)) =
        (items c)[i := (items c ! i)\<lparr>quantity :=
           Some (Number (js_add (ToNumber (quantity (items c ! i))) (ToNumber (Some qty))))\<rparr>]"
    by (simp add: addToCart_def Let_def)
next
  assume absent: "List.find (\<lambda>item. productId item = pid) (items c) = None"
  then have no: "\<forall>x\<in>set (items c). productId x \<noteq> pid"
    by (auto simp: find_None_iff)
  let ?new = "\<lparr>productId = pid, productName = pname1, price = pr1, quantity = Some q1,
                    image' = Some img1, addedAt = Some now1, others = []\<rparr>"
  have first: "items (fst (addToCart now1 pid pname1 pr1 q1 img1 c ls)) = items c @ [?new]"
    using absent by (simp add: addToCart_def Let_def)
  have found: "List.find (\<lambda>item. productId item = pid) (items c @ [?new]) = Some ?new"
    using no by (simp add: find_append_absent)
  have upd: "assign_found (\<lambda>item. productId item = pid) f (items c @ [?new])
               = items c @ [f ?new]" for f
    using no by (simp add: assign_found_append_absent)
  have filt: "filter (\<lambda>item. productId item = pid) (items c) = []"
    using no by simp
  show "(let (c1, ls1) = addToCart now1 pid pname1 pr1 q1 img1 c ls;
             (c2, ls2) = addToCart now2 pid pname2 pr2 q2 img2 c1 ls1
         in items c2 =
              items c @ [\<lparr>productId = pid, productName = pname1, price = pr1,
                          quantity = Some (Number (js_add (ToNumber (Some q1)) (ToNumber (Some q2)))),
                          image' = Some img1, addedAt = Some now1, others = []\<rparr>]
            \<and> length (filter (\<lambda>item. productId item = pid) (items c2)) = 1)"
    using first found upd filt
    by (simp add: addToCart_def Let_def absent split: prod.splits)
next
  show "snd (addToCart now pid pname pr qty img c ls) =
        ls(key c \<mapsto> stringify_cart (items (fst (addToCart now pid pname pr qty img c ls))))"
    by (simp add: addToCart_def Let_def saveCart_def setItem_def split: option.splits)
qed

theorem addToCart_merges_quantity_witness:
  "List.find (\<lambda>item. productId item = Some ''p1'')
      (items \<lparr>key = ''dokan_cart'', items = []\<rparr>) = None
   \<and> (let (c1, ls1) = addToCart ''t1'' (Some ''p1'') (Some ''Widget'') (Some (Number (Fin 5)))
       (Number (Fin 1)) ''''
                        \<lparr>key = ''dokan_cart'', items = []\<rparr> Map.empty;
           (c2, ls2) = addToCart ''t2'' (Some ''p1'') (Some ''Gadget'') (Some (Number (Fin 7)))
               (Number (Fin 2))
                        ''a.png'' c1 ls1
       in items c2 = [\<lparr>productId = Some ''p1'', productName = Some ''Widget'',
           price = Some (Number (Fin 5)),
                       quantity = Some (Number (Fin 3)), image' = Some '''', addedAt = Some ''t1'',
                       others = []\<rparr>]
          \<and> length (filter (\<lambda>item. productId item = Some ''p1'') (items c2)) = 1)
   \<and> productId ([\<lparr>productId = Some ''p1'', productName = Some ''Widget'',
       price = Some (Number (Fin 5)),
                    quantity = Some (Number (Fin 1)), image' = Some '''', addedAt = Some ''t1'',
                    others = []\<rparr>] ! 0) = Some ''p1''
   \<and> items (fst (addToCart ''t2'' (Some ''p1'') (Some ''Gadget'') (Some (Number (Fin 7)))
       (Number (Fin 2)) ''a.png''
        \<lparr>key = ''dokan_cart'',
          items = [\<lparr>productId = Some ''p1'', productName = Some ''Widget'',
          price = Some (Number (Fin 5)),
                    quantity = Some (Number (Fin 1)), image' = Some '''', addedAt = Some ''t1'',
                    others = []\<rparr>]\<rparr> Map.empty))
      = [\<lparr>productId = Some ''p1'', productName = Some ''Widget'',
          price = Some (Number (Fin 5)),
           quantity = Some (Number (Fin 3)), image' = Some '''', addedAt = Some ''t1'',
           others = []\<rparr>]"
proof -
  have absent: "List.find (\<lambda>item. productId item = Some ''p1'')
      (items \<lparr>key = ''dokan_cart'', items = []\<rparr>) = None"
    by simp
  have sum: "js_add (Fin 1) (Fin 2) = Fin 3"
    by (simp add: fl_small)
  have twice: "(let (c1, ls1) = addToCart ''t1'' (Some ''p1'') (Some ''Widget'')
      (Some (Number (Fin 5)))
                        (Number (Fin 1)) '''' \<lparr>key = ''dokan_cart'',
                            items = []\<rparr> Map.empty;
           (c2, ls2) = addToCart ''t2'' (Some ''p1'') (Some ''Gadget'') (Some (Number (Fin 7)))
               (Number (Fin 2))
                        ''a.png'' c1 ls1
       in items c2 = [\<lparr>productId = Some ''p1'', productName = Some ''Widget'',
           price = Some (Number (Fin 5)),
                       quantity = Some (Number (Fin 3)), image' = Some '''', addedAt = Some ''t1'',
                       others = []\<rparr>]
          \<and> length (filter (\<lambda>item. productId item = Some ''p1'') (items c2)) = 1)"
    using absent sum addToCart_merges_quantity
         [where pid = "Some ''p1''" and c = "\<lparr>key = ''dokan_cart'', items = []\<rparr>"
            and ls = Map.empty and ?now1.0 = "''t1''" and ?pname1.0 = "Some ''Widget''"
            and ?pr1.0 = "Some (Number (Fin 5))" and ?q1.0 = "Number (Fin 1)" and ?img1.0 = "''''"
            and ?now2.0 = "''t2''" and ?pname2.0 = "Some ''Gadget''" and ?pr2.0 = "Some (Number (Fin 7))"
            and ?q2.0 = "Number (Fin 2)" and ?img2.0 = "''a.png''"]
    by simp
  have existing: "items (fst (addToCart ''t2'' (Some ''p1'') (Some ''Gadget'')
      (Some (Number (Fin 7)))
        (Number (Fin 2)) ''a.png''
        \<lparr>key = ''dokan_cart'',
          items = [\<lparr>productId = Some ''p1'', productName = Some ''Widget'',
          price = Some (Number (Fin 5)),
                    quantity = Some (Number (Fin 1)), image' = Some '''', addedAt = Some ''t1'',
                    others = []\<rparr>]\<rparr> Map.empty))
      = [\<lparr>productId = Some ''p1'', productName = Some ''Widget'',
          price = Some (Number (Fin 5)),
           quantity = Some (Number (Fin 3)), image' = Some '''', addedAt = Some ''t1'',
           others = []\<rparr>]"
    using sum addToCart_merges_quantity
         [where pid = "Some ''p1''" and now = "''t2''" and pname = "Some ''Gadget''"
            and pr = "Some (Number (Fin 7))" and qty = "Number (Fin 2)" and img = "''a.png''"
            and ls = Map.empty
            and c = "\<lparr>key = ''dokan_cart'',
                items = [\<lparr>productId = Some ''p1'', productName = Some ''Widget'',
                  price = Some (Number (Fin 5)), quantity = Some (Number (Fin 1)),
                  image' = Some '''',
                  addedAt = Some ''t1'', others = []\<rparr>]\<rparr>", THEN conjunct2,
                  THEN conjunct1, rule_format, of 0]
    by simp
  from absent twice existing show ?thesis
    by simp
qed

lemma find_absent:
  "pid \<notin> f ` set xs \<Longrightarrow> List.find (\<lambda>item. f item = pid) xs = None"
  by (auto simp: find_None_iff)

text \<open>
  Claim C8. When no item has the given \<open>productId\<close>, \<open>addToCart\<close> appends an item whose
  quantity is the argument as it was passed, whatever its value: the method compares it
  with nothing, so \<open>0\<close> and negative numbers are stored (and written to the storage
  area) like any other.
\<close>

theorem addToCart_absent_any_quantity:
  assumes "pid \<notin> productId ` set (items c)"
  shows "items (fst (addToCart now pid pname pr qty img c ls)) =
           items c @ [\<lparr>productId = pid, productName = pname, price = pr, quantity = Some qty,
                       image' = Some img, addedAt = Some now, others = []\<rparr>]
         \<and> quantity (last (items (fst (addToCart now pid pname pr qty img c ls)))) = Some qty
         \<and> snd (addToCart now pid pname pr qty img c ls) (key c) =
             Some (stringify_cart (items c @
               [\<lparr>productId = pid, productName = pname, price = pr, quantity = Some qty,
                  image' = Some img, addedAt = Some now, others = []\<rparr>]))"
  using find_absent [OF assms]
  by (simp add: addToCart_def Let_def saveCart_def setItem_def)

theorem addToCart_absent_any_quantity_witness:
  "Some ''p1'' \<notin> productId ` set (items \<lparr>key = ''dokan_cart'', items = []\<rparr>)
   \<and> js_le (Fin (- 2)) (Fin 0)
   \<and> items (fst (addToCart ''t1'' (Some ''p1'') (Some ''Widget'') (Some (Number (Fin 5)))
       (Number (Fin (- 2))) ''''
         \<lparr>key = ''dokan_cart'', items = []\<rparr> Map.empty)) =
       [\<lparr>productId = Some ''p1'', productName = Some ''Widget'',
                price = Some (Number (Fin 5)),
          quantity = Some (Number (Fin (- 2))), image' = Some '''', addedAt = Some ''t1'',
          others = []\<rparr>]
   \<and> items (fst (addToCart ''t1'' (Some ''p1'') (Some ''Widget'') (Some (Number (Fin 5)))
       (Number (Fin 0)) ''''
         \<lparr>key = ''dokan_cart'', items = []\<rparr> Map.empty)) =
       [\<lparr>productId = Some ''p1'', productName = Some ''Widget'',
                price = Some (Number (Fin 5)),
          quantity = Some (Number (Fin 0)), image' = Some '''', addedAt = Some ''t1'',
          others = []\<rparr>]"
proof -
  have absent: "Some ''p1'' \<notin> productId ` set (items \<lparr>key = ''dokan_cart'',
      items = []\<rparr>)"
    by simp
  show ?thesis
    using absent
      addToCart_absent_any_quantity [OF absent, of "''t1''" "Some ''Widget''" "Some (Number (Fin 5))"
        "Number (Fin (- 2))" "''''" Map.empty]
      addToCart_absent_any_quantity [OF absent, of "''t1''" "Some ''Widget''" "Some (Number (Fin 5))"
        "Number (Fin 0)" "''''" Map.empty]
    by simp
qed

text \<open>
  Claim C9. When an item has the given \<open>productId\<close>, \<open>addToCart\<close> changes the quantity of
  the first such item and nothing else: its \<open>productId\<close>, \<open>productName\<close>, \<open>price\<close>,
  \<open>image\<close> and \<open>addedAt\<close> stay as stored, whatever name, price and image the call
  passes, the list keeps its length, and every other item is unchanged.
\<close>

theorem addToCart_existing_changes_quantity_only:
  assumes "pid \<in> productId ` set (items c)"
  shows "\<exists>i<length (items c).
           productId (items c ! i) = pid \<and> (\<forall>j<i. productId (items c ! j) \<noteq> pid)
         \<and> items (fst (addToCart now pid pname pr qty img c ls)) =
             (items c)[i := (items c ! i)\<lparr>quantity :=
                Some (Number (js_add (ToNumber (quantity (items c ! i))) (ToNumber (Some qty))))\<rparr>]
         \<and> length (items (fst (addToCart now pid pname pr qty img c ls))) = length (items c)
         \<and> (\<forall>j<length (items c). j \<noteq> i \<longrightarrow>
               items (fst (addToCart now pid pname pr qty img c ls)) ! j = items c ! j)
         \<and> productId (items (fst (addToCart now pid pname pr qty img c ls)) ! i) = pid
         \<and> productName (items (fst (addToCart now pid pname pr qty img c ls)) ! i)
             = productName (items c ! i)
         \<and> price (items (fst (addToCart now pid pname pr qty img c ls)) ! i)
             = price (items c ! i)
         \<and> image' (items (fst (addToCart now pid pname pr qty img c ls)) ! i)
             = image' (items c ! i)
         \<and> addedAt (items (fst (addToCart now pid pname pr qty img c ls)) ! i)
             = addedAt (items c ! i)
         \<and> quantity (items (fst (addToCart now pid pname pr qty img c ls)) ! i)
             = Some (Number (js_add (ToNumber (quantity (items c ! i))) (ToNumber (Some qty))))"
proof -
  from assms obtain x where "x \<in> set (items c)" "productId x = pid"
    by auto
  with find_present [of x "items c" "\<lambda>item. productId item = pid"]
  obtain i where i: "i < length (items c)" "productId (items c ! i) = pid"
      "\<forall>j<i. productId (items c ! j) \<noteq> pid"
      "List.find (\<lambda>item. productId item = pid) (items c) = Some (items c ! i)"
    by auto
  let ?f = "\<lambda>item. item\<lparr>quantity := Some (Number (js_add (ToNumber (quantity item)) (ToNumber (Some qty))))\<rparr>"
  from i have "assign_found (\<lambda>item. productId item = pid) ?f (items c)
      = (items c)[i := ?f (items c ! i)]"
    by (intro assign_found_first) auto
  with i have eq: "items (fst (addToCart now pid pname pr qty img c ls)) =
      (items c)[i := ?f (items c ! i)]"
    by (simp add: addToCart_def Let_def)
  show ?thesis
  proof (intro exI [of _ i] conjI)
    show "\<forall>j<length (items c). j \<noteq> i \<longrightarrow>
               items (fst (addToCart now pid pname pr qty img c ls)) ! j = items c ! j"
      by (simp add: eq)
  qed (use i in \<open>simp_all add: eq\<close>)
qed

theorem addToCart_existing_changes_quantity_only_witness:
  "Some ''p2'' \<in> productId ` set (items \<lparr>key = ''dokan_cart'', items =
        [\<lparr>productId = Some ''p1'', productName = Some ''Widget'',
                 price = Some (Number (Fin 5)),
           quantity = Some (Number (Fin 1)), image' = Some ''w.png'', addedAt = Some ''t1'',
           others = []\<rparr>,
         \<lparr>productId = Some ''p2'', productName = Some ''Gadget'',
                 price = Some (Number (Fin 7)),
           quantity = Some (Number (Fin 1)), image' = Some ''g.png'', addedAt = Some ''t2'',
           others = []\<rparr>]\<rparr>)
   \<and> items (fst (addToCart ''t3'' (Some ''p2'') (Some ''Renamed'') (Some (Number (Fin 8)))
       (Number (Fin 2)) ''r.png''
        \<lparr>key = ''dokan_cart'', items =
        [\<lparr>productId = Some ''p1'', productName = Some ''Widget'',
                 price = Some (Number (Fin 5)),
           quantity = Some (Number (Fin 1)), image' = Some ''w.png'', addedAt = Some ''t1'',
           others = []\<rparr>,
         \<lparr>productId = Some ''p2'', productName = Some ''Gadget'',
                 price = Some (Number (Fin 7)),
           quantity = Some (Number (Fin 1)), image' = Some ''g.png'', addedAt = Some ''t2'',
           others = []\<rparr>]\<rparr> Map.empty))
     = [\<lparr>productId = Some ''p1'', productName = Some ''Widget'',
         price = Some (Number (Fin 5)),
           quantity = Some (Number (Fin 1)), image' = Some ''w.png'', addedAt = Some ''t1'',
           others = []\<rparr>,
         \<lparr>productId = Some ''p2'', productName = Some ''Gadget'',
                 price = Some (Number (Fin 7)),
           quantity = Some (Number (Fin 3)), image' = Some ''g.png'', addedAt = Some ''t2'',
           others = []\<rparr>]"
proof -
  let ?c = "\<lparr>key = ''dokan_cart'', items =
        [\<lparr>productId = Some ''p1'', productName = Some ''Widget'',
                 price = Some (Number (Fin 5)),
           quantity = Some (Number (Fin 1)), image' = Some ''w.png'', addedAt = Some ''t1'',
           others = []\<rparr>,
         \<lparr>productId = Some ''p2'', productName = Some ''Gadget'',
                 price = Some (Number (Fin 7)),
           quantity = Some (Number (Fin 1)), image' = Some ''g.png'', addedAt = Some ''t2'',
           others = []\<rparr>]\<rparr>"
  have present: "Some ''p2'' \<in> productId ` set (items ?c)"
    by simp
  have sum: "js_add (Fin 1) (Fin 2) = Fin 3"
    by (simp add: fl_small)
  from addToCart_existing_changes_quantity_only [OF present, of "''t3''" "Some ''Renamed''"
      "Some (Number (Fin 8))" "Number (Fin 2)" "''r.png''" Map.empty]
  obtain i where i: "i < length (items ?c)" "productId (items ?c ! i) = Some ''p2''"
    and eq: "items (fst (addToCart ''t3'' (Some ''p2'') (Some ''Renamed'') (Some (Number (Fin 8)))
        (Number (Fin 2))
                ''r.png'' ?c Map.empty)) =
             (items ?c)[i := (items ?c ! i)\<lparr>quantity :=
                Some (Number (js_add (ToNumber (quantity (items ?c ! i)))
                  (ToNumber (Some (Number (Fin 2))))))\<rparr>]"
    by blast
  from i have "i = 1"
    by (cases i) auto
  with eq sum present show ?thesis
    by simp
qed

section \<open>Changing a quantity\<close>

text \<open>
  Claim C10. When no item has the given \<open>productId\<close>, \<open>updateQuantity\<close> does nothing, for
  every quantity: the cart and the storage area are returned as they were.
\<close>

theorem updateQuantity_absent_noop:
  assumes "pid \<notin> productId ` set (items c)"
  shows "updateQuantity pid qty c ls = (c, ls)"
  using find_absent [OF assms] by (simp add: updateQuantity_def)

theorem updateQuantity_absent_noop_witness:
  "Some ''p9'' \<notin> productId ` set (items \<lparr>key = ''dokan_cart'', items =
        [\<lparr>productId = Some ''p1'', productName = Some ''Widget'',
                 price = Some (Number (Fin 5)),
           quantity = Some (Number (Fin 1)), image' = Some ''w.png'', addedAt = Some ''t1'',
           others = []\<rparr>]\<rparr>)
   \<and> fst (updateQuantity (Some ''p9'') (Some (Number (Fin 4)))
       \<lparr>key = ''dokan_cart'', items =
        [\<lparr>productId = Some ''p1'', productName = Some ''Widget'',
                 price = Some (Number (Fin 5)),
           quantity = Some (Number (Fin 1)), image' = Some ''w.png'', addedAt = Some ''t1'',
           others = []\<rparr>]\<rparr> Map.empty)
      = \<lparr>key = ''dokan_cart'', items =
        [\<lparr>productId = Some ''p1'', productName = Some ''Widget'',
                 price = Some (Number (Fin 5)),
           quantity = Some (Number (Fin 1)), image' = Some ''w.png'', addedAt = Some ''t1'',
           others = []\<rparr>]\<rparr>
   \<and> snd (updateQuantity (Some ''p9'') (Some (Number (Fin 4)))
       \<lparr>key = ''dokan_cart'', items =
        [\<lparr>productId = Some ''p1'', productName = Some ''Widget'',
                 price = Some (Number (Fin 5)),
           quantity = Some (Number (Fin 1)), image' = Some ''w.png'', addedAt = Some ''t1'',
           others = []\<rparr>]\<rparr> Map.empty)
        ''dokan_cart'' = None"
proof -
  let ?c = "\<lparr>key = ''dokan_cart'', items =
        [\<lparr>productId = Some ''p1'', productName = Some ''Widget'',
                 price = Some (Number (Fin 5)),
           quantity = Some (Number (Fin 1)), image' = Some ''w.png'', addedAt = Some ''t1'',
           others = []\<rparr>]\<rparr>"
  have absent: "Some ''p9'' \<notin> productId ` set (items ?c)"
    by simp
  from absent updateQuantity_absent_noop [OF absent, of "Some (Number (Fin 4))" Map.empty]
  show ?thesis
    by simp
qed

lemma js_lt_not_le: "js_lt (Fin 0) x \<Longrightarrow> \<not> js_le x (Fin 0)"
  by (cases x) auto

text \<open>
  Claim C4. When an item has the given \<open>productId\<close>: \<open>updateQuantity\<close> with a quantity
  \<open>\<le> 0\<close> leaves the items of the other products, so no item with that \<open>productId\<close>
  remains and \<open>getTotalItems\<close> is the total of the others; with a quantity \<open>> 0\<close> it
  sets the quantity of the first such item to the argument. Both write the resulting
  items to the storage area.
\<close>

theorem updateQuantity_existing:
  assumes "pid \<in> productId ` set (items c)"
  shows "(js_le (ToNumber qty) (Fin 0) \<longrightarrow>
            items (fst (updateQuantity pid qty c ls)) =
              filter (\<lambda>item. productId item \<noteq> pid) (items c)
          \<and> pid \<notin> productId ` set (items (fst (updateQuantity pid qty c ls)))
          \<and> getTotalItems (fst (updateQuantity pid qty c ls)) =
              foldl (\<lambda>total item. js_add total (ToNumber (quantity item))) (Fin 0)
                (filter (\<lambda>item. productId item \<noteq> pid) (items c))
          \<and> snd (updateQuantity pid qty c ls) =
              ls(key c \<mapsto> stringify_cart (filter (\<lambda>item. productId item \<noteq> pid) (items c))))
       \<and> (js_lt (Fin 0) (ToNumber qty) \<longrightarrow>
            (\<exists>i<length (items c).
                productId (items c ! i) = pid \<and> (\<forall>j<i. productId (items c ! j) \<noteq> pid)
              \<and> items (fst (updateQuantity pid qty c ls)) =
                  (items c)[i := (items c ! i)\<lparr>quantity := qty\<rparr>])
          \<and> snd (updateQuantity pid qty c ls) =
              ls(key c \<mapsto> stringify_cart (items (fst (updateQuantity pid qty c ls)))))"
proof -
  from assms obtain x where "x \<in> set (items c)" "productId x = pid"
    by auto
  with find_present [of x "items c" "\<lambda>item. productId item = pid"]
  obtain i where i: "i < length (items c)" "productId (items c ! i) = pid"
      "\<forall>j<i. productId (items c ! j) \<noteq> pid"
      "List.find (\<lambda>item. productId item = pid) (items c) = Some (items c ! i)"
    by auto
  let ?set = "assign_found (\<lambda>item. productId item = pid) (\<lambda>item. item\<lparr>quantity := qty\<rparr>)
                (items c)"
  have assigned: "?set = (items c)[i := (items c ! i)\<lparr>quantity := qty\<rparr>]"
    using i by (intro assign_found_first) auto
  have others: "filter (\<lambda>item. productId item \<noteq> pid) ?set
                  = filter (\<lambda>item. productId item \<noteq> pid) (items c)"
    by (rule filter_assign_found) simp
  show ?thesis
  proof (intro conjI impI)
    assume le: "js_le (ToNumber qty) (Fin 0)"
    then have run: "updateQuantity pid qty c ls =
        (c\<lparr>items := filter (\<lambda>item. productId item \<noteq> pid) (items c)\<rparr>,
         ls(key c \<mapsto> stringify_cart (filter (\<lambda>item. productId item \<noteq> pid) (items c))))"
      using i(4) others
      by (simp add: updateQuantity_def removeFromCart_def saveCart_def setItem_def Let_def)
    show "items (fst (updateQuantity pid qty c ls)) =
              filter (\<lambda>item. productId item \<noteq> pid) (items c)"
      by (simp add: run)
    show "pid \<notin> productId ` set (items (fst (updateQuantity pid qty c ls)))"
      by (auto simp: run)
    show "getTotalItems (fst (updateQuantity pid qty c ls)) =
              foldl (\<lambda>total item. js_add total (ToNumber (quantity item))) (Fin 0)
                (filter (\<lambda>item. productId item \<noteq> pid) (items c))"
      by (simp add: run getTotalItems_def)
    show "snd (updateQuantity pid qty c ls) =
              ls(key c \<mapsto> stringify_cart (filter (\<lambda>item. productId item \<noteq> pid) (items c)))"
      by (simp add: run)
  next
    assume "js_lt (Fin 0) (ToNumber qty)"
    then have "\<not> js_le (ToNumber qty) (Fin 0)"
      by (rule js_lt_not_le)
    then have run: "updateQuantity pid qty c ls =
        (c\<lparr>items := ?set\<rparr>, ls(key c \<mapsto> stringify_cart ?set))"
      using i(4)
      by (simp add: updateQuantity_def saveCart_def setItem_def Let_def)
    show "\<exists>i<length (items c).
                productId (items c ! i) = pid \<and> (\<forall>j<i. productId (items c ! j) \<noteq> pid)
              \<and> items (fst (updateQuantity pid qty c ls)) =
                  (items c)[i := (items c ! i)\<lparr>quantity := qty\<rparr>]"
      using i assigned by (intro exI [of _ i]) (simp add: run)
    show "snd (updateQuantity pid qty c ls) =
              ls(key c \<mapsto> stringify_cart (items (fst (updateQuantity pid qty c ls))))"
      by (simp add: run)
  qed
qed

theorem updateQuantity_existing_witness:
  "Some ''p1'' \<in> productId ` set (items \<lparr>key = ''dokan_cart'', items =
        [\<lparr>productId = Some ''p1'', productName = Some ''Widget'',
                 price = Some (Number (Fin 5)),
           quantity = Some (Number (Fin 2)), image' = Some ''w.png'', addedAt = Some ''t1'',
           others = []\<rparr>,
         \<lparr>productId = Some ''p2'', productName = Some ''Gadget'',
                 price = Some (Number (Fin 7)),
           quantity = Some (Number (Fin 3)), image' = Some ''g.png'', addedAt = Some ''t2'',
           others = []\<rparr>]\<rparr>)
   \<and> js_le (ToNumber (Some (Number (Fin 0)))) (Fin 0)
   \<and> items (fst (updateQuantity (Some ''p1'') (Some (Number (Fin 0)))
       \<lparr>key = ''dokan_cart'', items =
        [\<lparr>productId = Some ''p1'', productName = Some ''Widget'',
                 price = Some (Number (Fin 5)),
           quantity = Some (Number (Fin 2)), image' = Some ''w.png'', addedAt = Some ''t1'',
           others = []\<rparr>,
         \<lparr>productId = Some ''p2'', productName = Some ''Gadget'',
                 price = Some (Number (Fin 7)),
           quantity = Some (Number (Fin 3)), image' = Some ''g.png'', addedAt = Some ''t2'',
           others = []\<rparr>]\<rparr> Map.empty))
      = [\<lparr>productId = Some ''p2'', productName = Some ''Gadget'',
          price = Some (Number (Fin 7)),
           quantity = Some (Number (Fin 3)), image' = Some ''g.png'', addedAt = Some ''t2'',
           others = []\<rparr>]
   \<and> getTotalItems (fst (updateQuantity (Some ''p1'') (Some (Number (Fin 0)))
       \<lparr>key = ''dokan_cart'', items =
        [\<lparr>productId = Some ''p1'', productName = Some ''Widget'',
                 price = Some (Number (Fin 5)),
           quantity = Some (Number (Fin 2)), image' = Some ''w.png'', addedAt = Some ''t1'',
           others = []\<rparr>,
         \<lparr>productId = Some ''p2'', productName = Some ''Gadget'',
                 price = Some (Number (Fin 7)),
           quantity = Some (Number (Fin 3)), image' = Some ''g.png'', addedAt = Some ''t2'',
           others = []\<rparr>]\<rparr> Map.empty))
      = Fin 3
   \<and> js_lt (Fin 0) (ToNumber (Some (Number (Fin 4))))
   \<and> items (fst (updateQuantity (Some ''p1'') (Some (Number (Fin 4)))
       \<lparr>key = ''dokan_cart'', items =
        [\<lparr>productId = Some ''p1'', productName = Some ''Widget'',
                 price = Some (Number (Fin 5)),
           quantity = Some (Number (Fin 2)), image' = Some ''w.png'', addedAt = Some ''t1'',
           others = []\<rparr>,
         \<lparr>productId = Some ''p2'', productName = Some ''Gadget'',
                 price = Some (Number (Fin 7)),
           quantity = Some (Number (Fin 3)), image' = Some ''g.png'', addedAt = Some ''t2'',
           others = []\<rparr>]\<rparr> Map.empty))
      = [\<lparr>productId = Some ''p1'', productName = Some ''Widget'',
          price = Some (Number (Fin 5)),
           quantity = Some (Number (Fin 4)), image' = Some ''w.png'', addedAt = Some ''t1'',
           others = []\<rparr>,
         \<lparr>productId = Some ''p2'', productName = Some ''Gadget'',
                 price = Some (Number (Fin 7)),
           quantity = Some (Number (Fin 3)), image' = Some ''g.png'', addedAt = Some ''t2'',
           others = []\<rparr>]"
proof -
  let ?c = "\<lparr>key = ''dokan_cart'', items =
        [\<lparr>productId = Some ''p1'', productName = Some ''Widget'',
                 price = Some (Number (Fin 5)),
           quantity = Some (Number (Fin 2)), image' = Some ''w.png'', addedAt = Some ''t1'',
           others = []\<rparr>,
         \<lparr>productId = Some ''p2'', productName = Some ''Gadget'',
                 price = Some (Number (Fin 7)),
           quantity = Some (Number (Fin 3)), image' = Some ''g.png'', addedAt = Some ''t2'',
           others = []\<rparr>]\<rparr>"
  have present: "Some ''p1'' \<in> productId ` set (items ?c)"
    by simp
  have le: "js_le (ToNumber (Some (Number (Fin 0)))) (Fin 0)"
    by simp
  have lt: "js_lt (Fin 0) (ToNumber (Some (Number (Fin 4))))"
    by simp
  have sum: "js_add (Fin 0) (Fin 3) = Fin 3"
    by (simp add: fl_small)
  note removed = updateQuantity_existing [OF present, of "Some (Number (Fin 0))" Map.empty,
      THEN conjunct1, rule_format, OF le]
  from updateQuantity_existing [OF present, of "Some (Number (Fin 4))" Map.empty,
      THEN conjunct2, rule_format, OF lt]
  obtain i where i: "i < length (items ?c)" "productId (items ?c ! i) = Some ''p1''"
      "\<forall>j<i. productId (items ?c ! j) \<noteq> Some ''p1''"
    and eq: "items (fst (updateQuantity (Some ''p1'') (Some (Number (Fin 4))) ?c Map.empty)) =
               (items ?c)[i := (items ?c ! i)\<lparr>quantity := Some (Number (Fin 4))\<rparr>]"
    by blast
  from i have "i = 0"
    by (cases i) auto
  with eq removed present le lt sum show ?thesis
    by simp
qed

section \<open>Totals\<close>

















section \<open>Adding to the wishlist\<close>

text \<open>
  Claim C3. \<open>addToWishlist\<close> returns \<open>true\<close> exactly when no entry has the given
  \<open>productId\<close>, and then it has appended the new entry and written the entries to the
  storage area; when an entry has it, the call returns \<open>false\<close> and the wishlist and the
  storage area are unchanged. So a second call for the same \<open>productId\<close> returns
  \<open>false\<close> and leaves the number of entries as the first call left it.
\<close>

theorem addToWishlist_true_iff_absent:
  "addToWishlist now pid pname pr img w ls =
     (if pid \<in> WishlistEntry.productId ` set (DokanWishlist.items w)
      then (False, w, ls)
      else (True,
            w\<lparr>DokanWishlist.items := DokanWishlist.items w @
                [\<lparr>WishlistEntry.productId = pid, productName = pname, price = pr,
                  image' = Some img, addedAt = Some now, others = []\<rparr>]\<rparr>,
            ls(DokanWishlist.key w \<mapsto> stringify_wishlist (DokanWishlist.items w @
                [\<lparr>WishlistEntry.productId = pid, productName = pname, price = pr,
                  image' = Some img, addedAt = Some now, others = []\<rparr>]))))
   \<and> (fst (addToWishlist now pid pname pr img w ls)
        \<longleftrightarrow> pid \<notin> WishlistEntry.productId ` set (DokanWishlist.items w))
   \<and> (case addToWishlist now pid pname pr img w ls of (r1, w1, ls1) \<Rightarrow>
        (case addToWishlist now2 pid pname2 pr2 img2 w1 ls1 of (r2, w2, ls2) \<Rightarrow>
           \<not> r2 \<and> w2 = w1 \<and> ls2 = ls1
           \<and> getTotalItems_wishlist w2 = getTotalItems_wishlist w1
           \<and> isInWishlist pid w2))"
proof -
  let ?P = "\<lambda>item. WishlistEntry.productId item = pid"
  have none: "List.find ?P (DokanWishlist.items w) = None"
    if "pid \<notin> WishlistEntry.productId ` set (DokanWishlist.items w)"
    using that by (auto simp: find_None_iff)
  have some: "\<exists>e. List.find ?P (DokanWishlist.items w) = Some e"
    if "pid \<in> WishlistEntry.productId ` set (DokanWishlist.items w)"
  proof -
    from that have "List.find ?P (DokanWishlist.items w) \<noteq> None"
      by (auto simp: find_None_iff)
    then show ?thesis by auto
  qed
  have run: "addToWishlist now pid pname pr img w ls =
     (if pid \<in> WishlistEntry.productId ` set (DokanWishlist.items w)
      then (False, w, ls)
      else (True,
            w\<lparr>DokanWishlist.items := DokanWishlist.items w @
                [\<lparr>WishlistEntry.productId = pid, productName = pname, price = pr,
                  image' = Some img, addedAt = Some now, others = []\<rparr>]\<rparr>,
            ls(DokanWishlist.key w \<mapsto> stringify_wishlist (DokanWishlist.items w @
                [\<lparr>WishlistEntry.productId = pid, productName = pname, price = pr,
                  image' = Some img, addedAt = Some now, others = []\<rparr>]))))"
  proof (cases "pid \<in> WishlistEntry.productId ` set (DokanWishlist.items w)")
    case True
    with some obtain e where "List.find ?P (DokanWishlist.items w) = Some e"
      by blast
    with True show ?thesis
      by (simp add: addToWishlist_def)
  next
    case False
    with none show ?thesis
      by (simp add: addToWishlist_def Let_def saveWishlist_def setItem_def)
  qed
  have after: "pid \<in> WishlistEntry.productId `
                 set (DokanWishlist.items (fst (snd (addToWishlist now pid pname pr img w ls))))"
    by (simp add: run)
  have again: "addToWishlist now2 pid pname2 pr2 img2 w1 ls1 = (False, w1, ls1)"
    if "pid \<in> WishlistEntry.productId ` set (DokanWishlist.items w1)" for w1 ls1
  proof -
    from that have "List.find ?P (DokanWishlist.items w1) \<noteq> None"
      by (auto simp: find_None_iff)
    then show ?thesis
      by (auto simp: addToWishlist_def)
  qed
  have "case addToWishlist now pid pname pr img w ls of (r1, w1, ls1) \<Rightarrow>
        (case addToWishlist now2 pid pname2 pr2 img2 w1 ls1 of (r2, w2, ls2) \<Rightarrow>
           \<not> r2 \<and> w2 = w1 \<and> ls2 = ls1
           \<and> getTotalItems_wishlist w2 = getTotalItems_wishlist w1
           \<and> isInWishlist pid w2)"
  proof -
    obtain r1 w1 ls1 where first: "addToWishlist now pid pname pr img w ls = (r1, w1, ls1)"
      by (cases "addToWishlist now pid pname pr img w ls") auto
    with after have in1: "pid \<in> WishlistEntry.productId ` set (DokanWishlist.items w1)"
      by simp
    then have "isInWishlist pid w1"
      by (auto simp: isInWishlist_def list_ex_iff)
    with again [OF in1] first show ?thesis
      by simp
  qed
  moreover have "fst (addToWishlist now pid pname pr img w ls)
        \<longleftrightarrow> pid \<notin> WishlistEntry.productId ` set (DokanWishlist.items w)"
    by (simp add: run)
  ultimately show ?thesis
    using run by blast
qed

theorem addToWishlist_true_iff_absent_witness:
  "fst (addToWishlist ''t1'' (Some ''p7'') (Some ''Lamp'') (Some (Number (Fin 12))) ''''
        \<lparr>DokanWishlist.key = ''dokan_wishlist'', items = []\<rparr> Map.empty)
   \<and> \<not> fst (addToWishlist ''t2'' (Some ''p7'') (Some ''Lamp'')
       (Some (Number (Fin 12))) ''''
        \<lparr>DokanWishlist.key = ''dokan_wishlist'', items =
           [\<lparr>WishlistEntry.productId = Some ''p7'', productName = Some ''Lamp'',
                    price = Some (Number (Fin 12)),
              image' = Some '''', addedAt = Some ''t1'', others = []\<rparr>]\<rparr> Map.empty)
   \<and> fst (snd (addToWishlist ''t1'' (Some ''p7'') (Some ''Lamp'') (Some (Number (Fin 12))) ''''
        \<lparr>DokanWishlist.key = ''dokan_wishlist'', items = []\<rparr> Map.empty))
      = \<lparr>DokanWishlist.key = ''dokan_wishlist'', items =
           [\<lparr>WishlistEntry.productId = Some ''p7'', productName = Some ''Lamp'',
                    price = Some (Number (Fin 12)),
              image' = Some '''', addedAt = Some ''t1'', others = []\<rparr>]\<rparr>"
  using addToWishlist_true_iff_absent [of "''t1''" "Some ''p7''" "Some ''Lamp''" "Some (Number (Fin 12))" "''''"
          "\<lparr>DokanWishlist.key = ''dokan_wishlist'', items = []\<rparr>" Map.empty]
        addToWishlist_true_iff_absent [of "''t2''" "Some ''p7''" "Some ''Lamp''" "Some (Number (Fin 12))" "''''"
          "\<lparr>DokanWishlist.key = ''dokan_wishlist'', items =
           [\<lparr>WishlistEntry.productId = Some ''p7'', productName = Some ''Lamp'',
                    price = Some (Number (Fin 12)),
              image' = Some '''', addedAt = Some ''t1'', others = []\<rparr>]\<rparr>" Map.empty]
  by simp

section \<open>Persisting and reloading\<close>

lemma keys_present: "fst ` set (present entries) \<subseteq> fst ` set entries"
  by (induction entries rule: present.induct) auto

lemma distinct_present:
  "distinct (map fst entries) \<Longrightarrow> distinct (map fst (present entries))"
proof (induction entries rule: present.induct)
  case 1
  show ?case by simp
next
  case (2 k entries)
  then show ?case by simp
next
  case (3 k j entries)
  then have "k \<notin> fst ` set (present entries)"
    using keys_present [of entries] by auto
  with 3 show ?case by simp
qed

lemma map_of_present:
  "distinct (map fst entries) \<Longrightarrow>
     map_of (present entries) k = (case map_of entries k of None \<Rightarrow> None | Some v \<Rightarrow> v)"
proof (induction entries rule: present.induct)
  case 1
  show ?case by simp
next
  case (2 k' entries)
  then have "k' \<notin> fst ` set (present entries)"
    using keys_present [of entries] by auto
  then have "map_of (present entries) k' = None"
    by (simp add: map_of_eq_None_iff)
  moreover from 2 have "map_of entries k' = None"
    by (simp add: map_of_eq_None_iff)
  ultimately show ?case
    using 2 by simp
next
  case (3 k' j entries)
  then show ?case
    by simp
qed

lemma foldl_define_property:
  "distinct (map fst (acc @ ps)) \<Longrightarrow> foldl define_property acc ps = acc @ ps"
proof (induction ps arbitrary: acc)
  case Nil
  show ?case by simp
next
  case (Cons p ps)
  then have "define_property acc p = acc @ [p]"
    by (auto simp: define_property_def)
  with Cons.IH [of "acc @ [p]"] Cons.prems show ?case
    by simp
qed

lemma object_of_distinct: "distinct (map fst ps) \<Longrightarrow> object_of ps = ps"
  using foldl_define_property [of "[]" ps] by (simp add: object_of_def)

lemma distinct_define_property:
  "distinct (map fst obj) \<Longrightarrow> distinct (map fst (define_property obj kv))"
proof (cases "fst kv \<in> fst ` set obj")
  case True
  have same: "map fst (map (\<lambda>p. if fst p = fst kv then kv else p) obj) = map fst obj"
    by (induction obj) auto
  from True have "define_property obj kv = map (\<lambda>p. if fst p = fst kv then kv else p) obj"
    by (simp add: define_property_def)
  moreover assume "distinct (map fst obj)"
  ultimately show ?thesis
    by (simp only: same)
next
  case False
  moreover assume "distinct (map fst obj)"
  ultimately show ?thesis
    by (auto simp: define_property_def)
qed

lemma distinct_object_of: "distinct (map fst (object_of members))"
proof -
  have "distinct (map fst acc) \<Longrightarrow> distinct (map fst (foldl define_property acc members))"
    for acc
    by (induction members arbitrary: acc) (simp_all add: distinct_define_property)
  from this [of "[]"] show ?thesis
    by (simp add: object_of_def)
qed

lemma proper_others_filter:
  "proper_others names (filter (\<lambda>p. fst p \<notin> set names) (object_of members))"
  using distinct_object_of [of members]
  by (simp add: proper_others_def distinct_map_filter list_all_iff)

lemma written_object:
  assumes "distinct (map fst entries)" and "set (map fst entries) \<subseteq> set names"
    and "proper_others names ps"
  shows "object_of (present entries @ ps) = present entries @ ps"
    and "filter (\<lambda>p. fst p \<notin> set names) (present entries @ ps) = ps"
    and "map_of entries k = Some v \<Longrightarrow> map_of (present entries @ ps) k = v"
proof -
  from assms(2) keys_present [of entries]
  have known: "fst ` set (present entries) \<subseteq> set names"
    by auto
  from assms(3) have other: "\<forall>p\<in>set ps. fst p \<notin> set names" and dist: "distinct (map fst ps)"
    by (simp_all add: proper_others_def list_all_iff)
  from known other have "fst ` set (present entries) \<inter> fst ` set ps = {}"
    by fastforce
  with distinct_present [OF assms(1)] dist
  have "distinct (map fst (present entries @ ps))"
    by simp
  then show "object_of (present entries @ ps) = present entries @ ps"
    by (rule object_of_distinct)
  from known other show "filter (\<lambda>p. fst p \<notin> set names) (present entries @ ps) = ps"
    by (auto simp: filter_empty_conv filter_id_conv)
  assume found: "map_of entries k = Some v"
  then have "k \<in> fst ` set entries"
    by (auto dest!: map_of_SomeD intro: rev_image_eqI)
  with assms(2) have "k \<in> set names"
    by auto
  with other have "k \<notin> fst ` set ps"
    by force
  then have "map_of ps k = None"
    by (simp add: map_of_eq_None_iff)
  with found map_of_present [OF assms(1), of k] show "map_of (present entries @ ps) k = v"
    by (cases v) (simp_all add: map_add_def)
qed

lemma string_property_written:
  "map_of obj name = map_option JString v \<Longrightarrow> string_property obj name = Some v"
  by (cases v) (simp_all add: string_property_def)

lemma number_property_written:
  "map_of obj name = map_option stringify_number v \<Longrightarrow>
     number_property obj name = Some (reloaded v)"
  by (cases v rule: reloaded.cases) (simp_all add: number_property_def)

lemma reloaded_json_value: "reloaded v = v \<longleftrightarrow> json_value v"
  by (cases v rule: reloaded.cases) simp_all

lemma parse_stringify_LineItem:
  assumes "proper_others LineItem_names (others item)"
  shows "parse_LineItem (stringify_LineItem item) = Some (reloaded_LineItem item)"
proof -
  let ?entries = "[(''productId'', map_option JString (productId item)),
         (''productName'', map_option JString (productName item)),
         (''price'', map_option stringify_number (price item)),
         (''quantity'', map_option stringify_number (quantity item)),
         (''image'', map_option JString (image' item)),
         (''addedAt'', map_option JString (addedAt item))]"
  have names: "distinct (map fst ?entries)" "set (map fst ?entries) \<subseteq> set LineItem_names"
    by (simp_all add: LineItem_names_def)
  note obj = written_object [OF names assms]
  have "string_property (present ?entries @ others item) ''productId'' = Some (productId item)"
    "string_property (present ?entries @ others item) ''productName'' = Some (productName item)"
    "number_property (present ?entries @ others item) ''price'' = Some (reloaded (price item))"
    "number_property (present ?entries @ others item) ''quantity''
       = Some (reloaded (quantity item))"
    "string_property (present ?entries @ others item) ''image'' = Some (image' item)"
    "string_property (present ?entries @ others item) ''addedAt'' = Some (addedAt item)"
    by (rule string_property_written number_property_written, rule obj(3), simp)+
  then show ?thesis
    by (simp add: stringify_LineItem_def obj(1,2) reloaded_LineItem_def del: filter_append)
qed

lemma parse_stringify_WishlistEntry:
  assumes "proper_others WishlistEntry_names (WishlistEntry.others item)"
  shows "parse_WishlistEntry (stringify_WishlistEntry item) = Some (reloaded_WishlistEntry item)"
proof -
  let ?entries = "[(''productId'', map_option JString (WishlistEntry.productId item)),
         (''productName'', map_option JString (WishlistEntry.productName item)),
         (''price'', map_option stringify_number (WishlistEntry.price item)),
         (''image'', map_option JString (WishlistEntry.image' item)),
         (''addedAt'', map_option JString (WishlistEntry.addedAt item))]"
  have names: "distinct (map fst ?entries)"
    "set (map fst ?entries) \<subseteq> set WishlistEntry_names"
    by (simp_all add: WishlistEntry_names_def)
  note obj = written_object [OF names assms]
  have "string_property (present ?entries @ WishlistEntry.others item) ''productId''
       = Some (WishlistEntry.productId item)"
    "string_property (present ?entries @ WishlistEntry.others item) ''productName''
       = Some (WishlistEntry.productName item)"
    "number_property (present ?entries @ WishlistEntry.others item) ''price''
       = Some (reloaded (WishlistEntry.price item))"
    "string_property (present ?entries @ WishlistEntry.others item) ''image''
       = Some (WishlistEntry.image' item)"
    "string_property (present ?entries @ WishlistEntry.others item) ''addedAt''
       = Some (WishlistEntry.addedAt item)"
    by (rule string_property_written number_property_written, rule obj(3), simp)+
  then show ?thesis
    by (simp add: stringify_WishlistEntry_def obj(1,2) reloaded_WishlistEntry_def
          del: filter_append)
qed

lemma those_map_Some:
  "(\<And>x. x \<in> set xs \<Longrightarrow> f (g x) = Some (h x)) \<Longrightarrow>
     those (map f (map g xs)) = Some (map h xs)"
  by (induction xs) auto

lemma reload_cart:
  assumes "key c = ''dokan_cart''"
    and "list_all (\<lambda>item. proper_others LineItem_names (others item)) (items c)"
  shows "DokanCart_constructor (saveCart c ls) = Inr (c\<lparr>items := map reloaded_LineItem (items c)\<rparr>)"
proof -
  from assms(2)
  have "those (map parse_LineItem (map stringify_LineItem (items c)))
          = Some (map reloaded_LineItem (items c))"
    by (intro those_map_Some parse_stringify_LineItem) (simp add: list_all_iff)
  with assms(1) show ?thesis
    by (simp add: DokanCart_constructor_def loadCart_def saveCart_def getItem_def setItem_def
          stringify_cart_def)
qed

lemma reload_wishlist:
  assumes "DokanWishlist.key w = ''dokan_wishlist''"
    and "list_all (\<lambda>item. proper_others WishlistEntry_names (WishlistEntry.others item))
           (DokanWishlist.items w)"
  shows "DokanWishlist_constructor (saveWishlist w ls)
           = Inr (w\<lparr>DokanWishlist.items := map reloaded_WishlistEntry (DokanWishlist.items w)\<rparr>)"
proof -
  from assms(2)
  have "those (map parse_WishlistEntry (map stringify_WishlistEntry (DokanWishlist.items w)))
          = Some (map reloaded_WishlistEntry (DokanWishlist.items w))"
    by (intro those_map_Some parse_stringify_WishlistEntry) (simp add: list_all_iff)
  with assms(1) show ?thesis
    by (simp add: DokanWishlist_constructor_def loadWishlist_def saveWishlist_def getItem_def
          setItem_def stringify_wishlist_def)
qed

lemma reloaded_LineItem_same:
  "reloaded_LineItem item = item \<longleftrightarrow> json_value (price item) \<and> json_value (quantity item)"
proof
  assume "reloaded_LineItem item = item"
  then have "price (reloaded_LineItem item) = price item"
    "quantity (reloaded_LineItem item) = quantity item"
    by simp_all
  then show "json_value (price item) \<and> json_value (quantity item)"
    by (simp add: reloaded_LineItem_def reloaded_json_value)
next
  assume "json_value (price item) \<and> json_value (quantity item)"
  then show "reloaded_LineItem item = item"
    by (simp add: reloaded_LineItem_def reloaded_json_value [symmetric])
qed

lemma reloaded_WishlistEntry_same:
  "reloaded_WishlistEntry item = item \<longleftrightarrow> json_value (WishlistEntry.price item)"
proof
  assume "reloaded_WishlistEntry item = item"
  then have "WishlistEntry.price (reloaded_WishlistEntry item) = WishlistEntry.price item"
    by simp
  then show "json_value (WishlistEntry.price item)"
    by (simp add: reloaded_WishlistEntry_def reloaded_json_value)
next
  assume "json_value (WishlistEntry.price item)"
  then show "reloaded_WishlistEntry item = item"
    by (simp add: reloaded_WishlistEntry_def reloaded_json_value [symmetric])
qed

lemma map_same: "map f xs = xs \<longleftrightarrow> list_all (\<lambda>x. f x = x) xs"
  by (induction xs) auto

text \<open>
  The objects that the methods make and that the constructors load have every property
  once, so the condition on \<open>others\<close> below holds in every state that the program reaches.
\<close>

lemma proper_parse_LineItem:
  "parse_LineItem j = Some item \<Longrightarrow> proper_others LineItem_names (others item)"
  by (cases j) (auto simp: proper_others_filter split: Option.bind_splits)

lemma proper_parse_WishlistEntry:
  "parse_WishlistEntry j = Some item \<Longrightarrow>
     proper_others WishlistEntry_names (WishlistEntry.others item)"
  by (cases j) (auto simp: proper_others_filter split: Option.bind_splits)

lemma list_all_assign_found:
  "list_all Q xs \<Longrightarrow> (\<And>x. Q x \<Longrightarrow> Q (f x)) \<Longrightarrow> list_all Q (assign_found P f xs)"
  by (induction xs) auto

lemma proper_addToCart:
  assumes "list_all (\<lambda>item. proper_others LineItem_names (others item)) (items c)"
  shows "list_all (\<lambda>item. proper_others LineItem_names (others item))
           (items (fst (addToCart now pid pname pr qty img c ls)))"
  using assms
  by (cases "List.find (\<lambda>item. productId item = pid) (items c)")
     (simp_all add: addToCart_def Let_def proper_others_def list_all_assign_found)

lemma proper_updateQuantity:
  assumes "list_all (\<lambda>item. proper_others LineItem_names (others item)) (items c)"
  shows "list_all (\<lambda>item. proper_others LineItem_names (others item))
           (items (fst (updateQuantity pid qty c ls)))"
proof (cases "List.find (\<lambda>item. productId item = pid) (items c)")
  case None
  with assms show ?thesis
    by (simp add: updateQuantity_def)
next
  case (Some item)
  from assms
  have "list_all (\<lambda>item. proper_others LineItem_names (others item))
          (assign_found (\<lambda>item. productId item = pid) (\<lambda>item. item\<lparr>quantity := qty\<rparr>)
             (items c))"
    by (rule list_all_assign_found) simp
  with Some show ?thesis
    by (simp add: updateQuantity_def removeFromCart_def Let_def list_all_iff)
qed

lemma proper_removeFromCart:
  "list_all (\<lambda>item. proper_others LineItem_names (others item)) (items c) \<Longrightarrow>
     list_all (\<lambda>item. proper_others LineItem_names (others item))
       (items (fst (removeFromCart pid c ls)))"
  by (simp add: removeFromCart_def Let_def list_all_iff)

lemma proper_addToWishlist:
  assumes "list_all (\<lambda>item. proper_others WishlistEntry_names (WishlistEntry.others item))
             (DokanWishlist.items w)"
  shows "list_all (\<lambda>item. proper_others WishlistEntry_names (WishlistEntry.others item))
           (DokanWishlist.items (fst (snd (addToWishlist now pid pname pr img w ls))))"
  using assms
  by (cases "List.find (\<lambda>item. WishlistEntry.productId item = pid) (DokanWishlist.items w)")
     (simp_all add: addToWishlist_def Let_def proper_others_def)

text \<open>
  Claim C6, amended. A cart written under \<open>dokan_cart\<close> and loaded by a new \<open>DokanCart\<close>
  comes back with the same items in the same order, except that a \<open>price\<close> or \<open>quantity\<close>
  that was \<open>NaN\<close> or an infinity is \<open>null\<close>: so it comes back as it was exactly when every
  \<open>price\<close> and \<open>quantity\<close> is a finite number, \<open>null\<close> or \<open>undefined\<close>. The same holds for a
  wishlist and the \<open>price\<close> of its entries, under \<open>dokan_wishlist\<close>. The hypothesis on
  \<open>others\<close> is that each object has every property once, as every JavaScript object does.
\<close>

theorem persist_reload_json_values:
  "(key c = ''dokan_cart''
      \<and> list_all (\<lambda>item. proper_others LineItem_names (others item)) (items c)
    \<longrightarrow> DokanCart_constructor (saveCart c ls)
          = Inr (c\<lparr>items := map reloaded_LineItem (items c)\<rparr>)
        \<and> (DokanCart_constructor (saveCart c ls) = Inr c
           \<longleftrightarrow> list_all (\<lambda>item. json_value (price item) \<and> json_value (quantity item))
                 (items c)))
   \<and> (DokanWishlist.key w = ''dokan_wishlist''
      \<and> list_all (\<lambda>item. proper_others WishlistEntry_names (WishlistEntry.others item))
           (DokanWishlist.items w)
    \<longrightarrow> DokanWishlist_constructor (saveWishlist w ls)
          = Inr (w\<lparr>DokanWishlist.items :=
                    map reloaded_WishlistEntry (DokanWishlist.items w)\<rparr>)
        \<and> (DokanWishlist_constructor (saveWishlist w ls) = Inr w
           \<longleftrightarrow> list_all (\<lambda>item. json_value (WishlistEntry.price item))
                 (DokanWishlist.items w)))"
proof (intro conjI impI)
  assume h: "key c = ''dokan_cart''
      \<and> list_all (\<lambda>item. proper_others LineItem_names (others item)) (items c)"
  then show reload: "DokanCart_constructor (saveCart c ls)
          = Inr (c\<lparr>items := map reloaded_LineItem (items c)\<rparr>)"
    by (simp add: reload_cart)
  have "c\<lparr>items := map reloaded_LineItem (items c)\<rparr> = c
          \<longleftrightarrow> map reloaded_LineItem (items c) = items c"
    by (cases c) simp
  then show "DokanCart_constructor (saveCart c ls) = Inr c
           \<longleftrightarrow> list_all (\<lambda>item. json_value (price item) \<and> json_value (quantity item))
                 (items c)"
    by (simp add: reload map_same reloaded_LineItem_same)
next
  assume h: "DokanWishlist.key w = ''dokan_wishlist''
      \<and> list_all (\<lambda>item. proper_others WishlistEntry_names (WishlistEntry.others item))
           (DokanWishlist.items w)"
  then show reload: "DokanWishlist_constructor (saveWishlist w ls)
          = Inr (w\<lparr>DokanWishlist.items :=
                    map reloaded_WishlistEntry (DokanWishlist.items w)\<rparr>)"
    by (simp add: reload_wishlist)
  have "w\<lparr>DokanWishlist.items := map reloaded_WishlistEntry (DokanWishlist.items w)\<rparr> = w
          \<longleftrightarrow> map reloaded_WishlistEntry (DokanWishlist.items w) = DokanWishlist.items w"
    by (cases w) simp
  then show "DokanWishlist_constructor (saveWishlist w ls) = Inr w
           \<longleftrightarrow> list_all (\<lambda>item. json_value (WishlistEntry.price item))
                 (DokanWishlist.items w)"
    by (simp add: reload map_same reloaded_WishlistEntry_same)
qed


theorem persist_reload_json_values_witness:
  "key \<lparr>key = ''dokan_cart'', items =
        [\<lparr>productId = Some ''p1'', productName = Some ''Widget'',
           price = Some (Number (Fin (39 / 4))), quantity = Some (Number (Fin 2)),
           image' = Some ''w.png'', addedAt = Some ''t1'', others = []\<rparr>,
         \<lparr>productId = Some ''p2'', productName = None,
           price = Some (Number NaN), quantity = Some (Number PosInf),
           image' = Some '''', addedAt = Some ''t2'',
           others = [(''colour'', JString ''red'')]\<rparr>]\<rparr> = ''dokan_cart''
   \<and> list_all (\<lambda>item. proper_others LineItem_names (others item))
        [\<lparr>productId = Some ''p1'', productName = Some ''Widget'',
           price = Some (Number (Fin (39 / 4))), quantity = Some (Number (Fin 2)),
           image' = Some ''w.png'', addedAt = Some ''t1'', others = []\<rparr>,
         \<lparr>productId = Some ''p2'', productName = None,
           price = Some (Number NaN), quantity = Some (Number PosInf),
           image' = Some '''', addedAt = Some ''t2'',
           others = [(''colour'', JString ''red'')]\<rparr>]
   \<and> DokanCart_constructor (saveCart \<lparr>key = ''dokan_cart'', items =
        [\<lparr>productId = Some ''p1'', productName = Some ''Widget'',
           price = Some (Number (Fin (39 / 4))), quantity = Some (Number (Fin 2)),
           image' = Some ''w.png'', addedAt = Some ''t1'', others = []\<rparr>,
         \<lparr>productId = Some ''p2'', productName = None,
           price = Some (Number NaN), quantity = Some (Number PosInf),
           image' = Some '''', addedAt = Some ''t2'',
           others = [(''colour'', JString ''red'')]\<rparr>]\<rparr> Map.empty)
      = Inr \<lparr>key = ''dokan_cart'', items =
        [\<lparr>productId = Some ''p1'', productName = Some ''Widget'',
           price = Some (Number (Fin (39 / 4))), quantity = Some (Number (Fin 2)),
           image' = Some ''w.png'', addedAt = Some ''t1'', others = []\<rparr>,
         \<lparr>productId = Some ''p2'', productName = None,
           price = Some Null, quantity = Some Null,
           image' = Some '''', addedAt = Some ''t2'',
           others = [(''colour'', JString ''red'')]\<rparr>]\<rparr>
   \<and> list_all (\<lambda>item. json_value (price item) \<and> json_value (quantity item))
        [\<lparr>productId = Some ''p1'', productName = Some ''Widget'',
           price = Some (Number (Fin (39 / 4))), quantity = Some (Number (Fin 2)),
           image' = Some ''w.png'', addedAt = Some ''t1'', others = []\<rparr>,
         \<lparr>productId = None, productName = None, price = None, quantity = Some Null,
           image' = None, addedAt = Some ''t2'', others = []\<rparr>]
   \<and> DokanCart_constructor (saveCart \<lparr>key = ''dokan_cart'', items =
        [\<lparr>productId = Some ''p1'', productName = Some ''Widget'',
           price = Some (Number (Fin (39 / 4))), quantity = Some (Number (Fin 2)),
           image' = Some ''w.png'', addedAt = Some ''t1'', others = []\<rparr>,
         \<lparr>productId = None, productName = None, price = None, quantity = Some Null,
           image' = None, addedAt = Some ''t2'', others = []\<rparr>]\<rparr> Map.empty)
      = Inr \<lparr>key = ''dokan_cart'', items =
        [\<lparr>productId = Some ''p1'', productName = Some ''Widget'',
           price = Some (Number (Fin (39 / 4))), quantity = Some (Number (Fin 2)),
           image' = Some ''w.png'', addedAt = Some ''t1'', others = []\<rparr>,
         \<lparr>productId = None, productName = None, price = None, quantity = Some Null,
           image' = None, addedAt = Some ''t2'', others = []\<rparr>]\<rparr>
   \<and> DokanWishlist_constructor (saveWishlist
       \<lparr>DokanWishlist.key = ''dokan_wishlist'', items =
        [\<lparr>WishlistEntry.productId = Some ''p7'', productName = None, price = None,
           image' = Some '''', addedAt = Some ''t1'', others = []\<rparr>]\<rparr> Map.empty)
      = Inr \<lparr>DokanWishlist.key = ''dokan_wishlist'', items =
        [\<lparr>WishlistEntry.productId = Some ''p7'', productName = None, price = None,
           image' = Some '''', addedAt = Some ''t1'', others = []\<rparr>]\<rparr>
   \<and> DokanWishlist_constructor (saveWishlist
       \<lparr>DokanWishlist.key = ''dokan_wishlist'', items =
        [\<lparr>WishlistEntry.productId = Some ''p8'', productName = Some ''Lamp'',
           price = Some (Number NegInf), image' = Some '''', addedAt = Some ''t1'',
           others = []\<rparr>]\<rparr> Map.empty)
      = Inr \<lparr>DokanWishlist.key = ''dokan_wishlist'', items =
        [\<lparr>WishlistEntry.productId = Some ''p8'', productName = Some ''Lamp'',
           price = Some Null, image' = Some '''', addedAt = Some ''t1'',
           others = []\<rparr>]\<rparr>"
proof -
  let ?c = "\<lparr>key = ''dokan_cart'', items =
        [\<lparr>productId = Some ''p1'', productName = Some ''Widget'',
           price = Some (Number (Fin (39 / 4))), quantity = Some (Number (Fin 2)),
           image' = Some ''w.png'', addedAt = Some ''t1'', others = []\<rparr>,
         \<lparr>productId = Some ''p2'', productName = None,
           price = Some (Number NaN), quantity = Some (Number PosInf),
           image' = Some '''', addedAt = Some ''t2'',
           others = [(''colour'', JString ''red'')]\<rparr>]\<rparr>"
  let ?d = "\<lparr>key = ''dokan_cart'', items =
        [\<lparr>productId = Some ''p1'', productName = Some ''Widget'',
           price = Some (Number (Fin (39 / 4))), quantity = Some (Number (Fin 2)),
           image' = Some ''w.png'', addedAt = Some ''t1'', others = []\<rparr>,
         \<lparr>productId = None, productName = None, price = None, quantity = Some Null,
           image' = None, addedAt = Some ''t2'', others = []\<rparr>]\<rparr>"
  let ?w = "\<lparr>DokanWishlist.key = ''dokan_wishlist'', items =
        [\<lparr>WishlistEntry.productId = Some ''p7'', productName = None, price = None,
           image' = Some '''', addedAt = Some ''t1'', others = []\<rparr>]\<rparr>"
  let ?v = "\<lparr>DokanWishlist.key = ''dokan_wishlist'', items =
        [\<lparr>WishlistEntry.productId = Some ''p8'', productName = Some ''Lamp'',
           price = Some (Number NegInf), image' = Some '''', addedAt = Some ''t1'',
           others = []\<rparr>]\<rparr>"
  have c: "key ?c = ''dokan_cart''
      \<and> list_all (\<lambda>item. proper_others LineItem_names (others item)) (items ?c)"
    by (simp add: proper_others_def LineItem_names_def)
  have d: "key ?d = ''dokan_cart''
      \<and> list_all (\<lambda>item. proper_others LineItem_names (others item)) (items ?d)"
    by (simp add: proper_others_def)
  have w: "DokanWishlist.key ?w = ''dokan_wishlist''
      \<and> list_all (\<lambda>item. proper_others WishlistEntry_names (WishlistEntry.others item))
           (DokanWishlist.items ?w)"
    by (simp add: proper_others_def)
  have v: "DokanWishlist.key ?v = ''dokan_wishlist''
      \<and> list_all (\<lambda>item. proper_others WishlistEntry_names (WishlistEntry.others item))
           (DokanWishlist.items ?v)"
    by (simp add: proper_others_def)
  note cart = persist_reload_json_values [of ?c Map.empty ?w, THEN conjunct1, rule_format, OF c]
  note same = persist_reload_json_values [of ?d Map.empty ?w, THEN conjunct1, rule_format, OF d]
  note wish = persist_reload_json_values [of ?d Map.empty ?w, THEN conjunct2, rule_format, OF w]
  note null = persist_reload_json_values [of ?d Map.empty ?v, THEN conjunct2, rule_format, OF v]
  have finite: "list_all (\<lambda>item. json_value (price item) \<and> json_value (quantity item))
                  (items ?d)"
    by simp
  have "DokanCart_constructor (saveCart ?d Map.empty) = Inr ?d"
    using same [THEN conjunct2] finite by blast
  moreover have "DokanWishlist_constructor (saveWishlist ?w Map.empty) = Inr ?w"
    using wish [THEN conjunct2] by simp
  moreover note cart [THEN conjunct1] null [THEN conjunct1]
  ultimately show ?thesis
    using c finite
    by (simp add: reloaded_LineItem_def reloaded_WishlistEntry_def)
qed

text \<open>
  Claim C6 as stated, for every collection, fails: a price that is \<open>NaN\<close> (what
  \<open>parseFloat\<close> returns in \<open>handleAddToCart\<close> for a button without a readable
  \<open>data-price\<close>) is written as \<open>null\<close> and read back as \<open>null\<close>, and the subtotal of the
  reloaded cart is \<open>0\<close> where it was \<open>NaN\<close>.
\<close>

theorem persist_reload_NaN_counterexample:
  "items (fst (addToCart ''t1'' (Some ''p1'') (Some ''Widget'') (Some (Number NaN))
        (Number (Fin 1)) '''' \<lparr>key = ''dokan_cart'', items = []\<rparr> Map.empty))
     = [\<lparr>productId = Some ''p1'', productName = Some ''Widget'', price = Some (Number NaN),
          quantity = Some (Number (Fin 1)), image' = Some '''', addedAt = Some ''t1'',
          others = []\<rparr>]
   \<and> DokanCart_constructor
        (snd (addToCart ''t1'' (Some ''p1'') (Some ''Widget'') (Some (Number NaN))
           (Number (Fin 1)) '''' \<lparr>key = ''dokan_cart'', items = []\<rparr> Map.empty))
     = Inr \<lparr>key = ''dokan_cart'', items =
         [\<lparr>productId = Some ''p1'', productName = Some ''Widget'', price = Some Null,
            quantity = Some (Number (Fin 1)), image' = Some '''', addedAt = Some ''t1'',
            others = []\<rparr>]\<rparr>
   \<and> DokanCart_constructor
        (snd (addToCart ''t1'' (Some ''p1'') (Some ''Widget'') (Some (Number NaN))
           (Number (Fin 1)) '''' \<lparr>key = ''dokan_cart'', items = []\<rparr> Map.empty))
     \<noteq> Inr (fst (addToCart ''t1'' (Some ''p1'') (Some ''Widget'') (Some (Number NaN))
           (Number (Fin 1)) '''' \<lparr>key = ''dokan_cart'', items = []\<rparr> Map.empty))
   \<and> getSubtotal (fst (addToCart ''t1'' (Some ''p1'') (Some ''Widget'') (Some (Number NaN))
        (Number (Fin 1)) '''' \<lparr>key = ''dokan_cart'', items = []\<rparr> Map.empty)) = NaN
   \<and> getSubtotal \<lparr>key = ''dokan_cart'', items =
         [\<lparr>productId = Some ''p1'', productName = Some ''Widget'', price = Some Null,
            quantity = Some (Number (Fin 1)), image' = Some '''', addedAt = Some ''t1'',
            others = []\<rparr>]\<rparr> = Fin 0"
  by (simp add: addToCart_def Let_def saveCart_def setItem_def stringify_cart_def
        stringify_LineItem_def DokanCart_constructor_def loadCart_def getItem_def
        object_of_def define_property_def string_property_def number_property_def
        LineItem_names_def getSubtotal_def fl_zero)

text \<open>
  The constructors read a stored object by the names of its properties: in any order,
  with any of them left out, and with others beside them. The first text below is the
  one that the page's own \<open>addToWishlist(productId)\<close> writes, with no \<open>productName\<close> and
  no \<open>price\<close>; in the second, \<open>quantity\<close> comes twice and first.
\<close>

lemma load_wishlist_written_by_page:
  "snd (snd (addToWishlist ''t1'' (Some ''p7'') None None ''''
       \<lparr>DokanWishlist.key = ''dokan_wishlist'',
               items = []\<rparr> Map.empty)) ''dokan_wishlist''
     = Some (JSON (JArray [JObject
         [(''productId'', JString ''p7''), (''image'', JString ''''),
          (''addedAt'', JString ''t1'')]]))
   \<and> DokanWishlist_constructor
        (snd (snd (addToWishlist ''t1'' (Some ''p7'') None None ''''
           \<lparr>DokanWishlist.key = ''dokan_wishlist'', items = []\<rparr> Map.empty)))
     = Inr \<lparr>DokanWishlist.key = ''dokan_wishlist'', items =
         [\<lparr>WishlistEntry.productId = Some ''p7'', productName = None, price = None,
            image' = Some '''', addedAt = Some ''t1'', others = []\<rparr>]\<rparr>"
  by (simp add: addToWishlist_def Let_def saveWishlist_def setItem_def stringify_wishlist_def
        stringify_WishlistEntry_def DokanWishlist_constructor_def loadWishlist_def getItem_def
        object_of_def define_property_def string_property_def number_property_def
        WishlistEntry_names_def)

lemma load_cart_any_properties:
  "DokanCart_constructor
     (Map.empty(''dokan_cart'' \<mapsto> JSON (JArray [JObject
        [(''quantity'', JNumber 2), (''colour'', JString ''red''),
         (''productId'', JString ''p1''), (''quantity'', JNumber 3)]])))
     = Inr \<lparr>key = ''dokan_cart'', items =
         [\<lparr>productId = Some ''p1'', productName = None, price = None,
            quantity = Some (Number (Fin 3)), image' = None, addedAt = None,
            others = [(''colour'', JString ''red'')]\<rparr>]\<rparr>
   \<and> getTotalItems \<lparr>key = ''dokan_cart'', items =
         [\<lparr>productId = Some ''p1'', productName = None, price = None,
            quantity = Some (Number (Fin 3)), image' = None, addedAt = None,
            others = [(''colour'', JString ''red'')]\<rparr>]\<rparr> = Fin 3
   \<and> getSubtotal \<lparr>key = ''dokan_cart'', items =
         [\<lparr>productId = Some ''p1'', productName = None, price = None,
            quantity = Some (Number (Fin 3)), image' = None, addedAt = None,
            others = [(''colour'', JString ''red'')]\<rparr>]\<rparr> = NaN"
  by (simp add: DokanCart_constructor_def loadCart_def getItem_def
        object_of_def define_property_def string_property_def number_property_def
        LineItem_names_def getTotalItems_def getSubtotal_def fl_small)


section \<open>The scenario of the specification\<close>

text \<open>
  Claim C7. A cart constructed on an empty storage area, after
  \<open>addToCart("p1", "Widget", 9.99, 1)\<close> and \<open>addToCart("p1", "Widget", 9.99, 2)\<close>, has
  \<open>getTotalItems() = 3\<close> and \<open>getSubtotal() = 29.97\<close>: the double that \<open>9.99 * 3\<close>
  rounds to is the double of the literal \<open>29.97\<close>.
\<close>

theorem scenario_widget_twice:
  "(case DokanCart_constructor Map.empty of
      Inl e \<Rightarrow> False
    | Inr c0 \<Rightarrow>
        (case addToCart now1 (Some ''p1'') (Some ''Widget'') (Some (Number (fl (999 / 100))))
            (Number (fl 1)) ''''
                c0 Map.empty of
           (c1, ls1) \<Rightarrow>
             (case addToCart now2 (Some ''p1'') (Some ''Widget'') (Some (Number (fl (999 / 100))))
                 (Number (fl 2)) ''''
                     c1 ls1 of
                (c2, ls2) \<Rightarrow> getTotalItems c2 = fl 3 \<and> getSubtotal c2 = fl (2997 / 100))))"
proof -
  have price: "fl (999 / 100) = Fin (5623870034678907 / 562949953421312)"
    by code_simp
  have total: "fl (2997 / 100) = Fin (1054475631502295 / 35184372088832)"
    by code_simp
  have product: "fl (5623870034678907 / 562949953421312 * 3)
                   = Fin (1054475631502295 / 35184372088832)"
    by code_simp
  have kept: "fl (0 + 1054475631502295 / 35184372088832)
                   = Fin (1054475631502295 / 35184372088832)"
    by code_simp
  have count: "fl (1 + 2) = Fin 3" "fl (0 + 3) = Fin 3"
    by code_simp+
  show ?thesis
    unfolding price total fl_small
    using product kept count
    by (simp add: DokanCart_constructor_def loadCart_def getItem_def addToCart_def Let_def
          getTotalItems_def getSubtotal_def)
qed


section \<open>The invariant of the cart\<close>

text \<open>
  Claim C2 has two halves. No operation makes two items of one \<open>productId\<close>: the lemmas
  below show it for \<open>addToCart\<close>, \<open>removeFromCart\<close>, \<open>updateQuantity\<close> and \<open>clearCart\<close>.
  For the quantities, \<open>updateQuantity\<close> removes the item when the quantity it has just
  assigned is \<open>\<le> 0\<close>; \<open>addToCart\<close> has no such test, neither on the item it appends nor on
  the quantity it has increased.
\<close>

lemma map_assign_found:
  "(\<And>x. g (f x) = g x) \<Longrightarrow> map g (assign_found P f xs) = map g xs"
  by (induction xs) auto

lemma distinct_productId_addToCart:
  assumes "distinct (map productId (items c))"
  shows "distinct (map productId (items (fst (addToCart now pid pname pr qty img c ls))))"
proof (cases "List.find (\<lambda>item. productId item = pid) (items c)")
  case None
  then have "pid \<notin> productId ` set (items c)"
    by (auto simp: find_None_iff)
  with assms None show ?thesis
    by (simp add: addToCart_def Let_def)
next
  case (Some existingItem)
  with assms show ?thesis
    by (simp add: addToCart_def Let_def map_assign_found)
qed

lemma distinct_productId_removeFromCart:
  "distinct (map productId (items c)) \<Longrightarrow>
     distinct (map productId (items (fst (removeFromCart pid c ls))))"
  by (simp add: removeFromCart_def Let_def distinct_map_filter)

lemma distinct_productId_updateQuantity:
  assumes "distinct (map productId (items c))"
  shows "distinct (map productId (items (fst (updateQuantity pid qty c ls))))"
proof (cases "List.find (\<lambda>item. productId item = pid) (items c)")
  case None
  with assms show ?thesis
    by (simp add: updateQuantity_def)
next
  case (Some item)
  have "distinct (map productId
          (assign_found (\<lambda>item. productId item = pid) (\<lambda>item. item\<lparr>quantity := qty\<rparr>)
             (items c)))"
    using assms by (simp add: map_assign_found)
  with Some show ?thesis
    by (simp add: updateQuantity_def removeFromCart_def Let_def distinct_map_filter)
qed

lemma distinct_productId_clearCart:
  "distinct (map productId (items (fst (clearCart c ls))))"
  by (simp add: clearCart_def Let_def)

text \<open>
  Claim C2, at the inputs where the code departs from it. On the cart constructed on an
  empty storage area, \<open>addToCart("p1", "Widget", 5, 0)\<close> appends an item of quantity
  \<open>0\<close>, which is not \<open>\<ge> 1\<close>, and writes that row to the storage area. On a cart that
  holds one \<open>p1\<close>, \<open>addToCart("p1", "Widget", 5, -1)\<close> leaves the item with quantity \<open>0\<close>,
  where \<open>updateQuantity("p1", 0)\<close> removes it.
\<close>

theorem addToCart_zero_quantity_row:
  "DokanCart_constructor Map.empty = Inr \<lparr>key = ''dokan_cart'', items = []\<rparr>
   \<and> items (fst (addToCart ''t1'' (Some ''p1'') (Some ''Widget'') (Some (Number (Fin 5)))
       (Number (Fin 0)) ''''
        \<lparr>key = ''dokan_cart'', items = []\<rparr> Map.empty))
     = [\<lparr>productId = Some ''p1'', productName = Some ''Widget'',
         price = Some (Number (Fin 5)),
          quantity = Some (Number (Fin 0)), image' = Some '''', addedAt = Some ''t1'',
          others = []\<rparr>]
   \<and> \<not> js_le (Fin 1) (ToNumber (quantity (hd (items (fst
        (addToCart ''t1'' (Some ''p1'') (Some ''Widget'') (Some (Number (Fin 5)))
            (Number (Fin 0)) ''''
           \<lparr>key = ''dokan_cart'', items = []\<rparr> Map.empty))))))
   \<and> snd (addToCart ''t1'' (Some ''p1'') (Some ''Widget'') (Some (Number (Fin 5)))
       (Number (Fin 0)) ''''
        \<lparr>key = ''dokan_cart'', items = []\<rparr> Map.empty) ''dokan_cart''
     = Some (JSON (JArray [JObject
         [(''productId'', JString ''p1''), (''productName'', JString ''Widget''),
          (''price'', JNumber 5), (''quantity'', JNumber 0), (''image'', JString ''''),
          (''addedAt'', JString ''t1'')]]))
   \<and> items (fst (addToCart ''t2'' (Some ''p1'') (Some ''Widget'') (Some (Number (Fin 5)))
       (Number (Fin (- 1))) ''''
        \<lparr>key = ''dokan_cart'', items =
           [\<lparr>productId = Some ''p1'', productName = Some ''Widget'',
                    price = Some (Number (Fin 5)),
              quantity = Some (Number (Fin 1)), image' = Some '''', addedAt = Some ''t1'',
              others = []\<rparr>]\<rparr> Map.empty))
     = [\<lparr>productId = Some ''p1'', productName = Some ''Widget'',
         price = Some (Number (Fin 5)),
          quantity = Some (Number (Fin 0)), image' = Some '''', addedAt = Some ''t1'',
          others = []\<rparr>]
   \<and> items (fst (updateQuantity (Some ''p1'') (Some (Number (Fin 0)))
        \<lparr>key = ''dokan_cart'', items =
           [\<lparr>productId = Some ''p1'', productName = Some ''Widget'',
                    price = Some (Number (Fin 5)),
              quantity = Some (Number (Fin 1)), image' = Some '''', addedAt = Some ''t1'',
              others = []\<rparr>]\<rparr> Map.empty))
     = []"
  by (simp add: addToCart_def Let_def saveCart_def setItem_def stringify_cart_def
        stringify_LineItem_def DokanCart_constructor_def loadCart_def getItem_def
        updateQuantity_def removeFromCart_def fl_zero)

end
